theory Spec2Isabelle
  imports Main
begin

section \<open>Values, thrown values and the executor interface\<close>

text \<open>
  The builders of drizzle-graphql (\<^verbatim>\<open>src/util/builders/mysql.ts\<close>, which also holds the
  SQLite builder, and \<^verbatim>\<open>src/Util/Builders/vanilla/pg.ts\<close>) turn every table of a schema
  into six resolvers. The resolvers are embedded as functions over an explicit trace of
  the queries handed to the executor; every \<^verbatim>\<open>throw\<close> is a value \<open>Inl e\<close>.
\<close>

datatype val =
    VNull
  | VBool bool
  | VInt int
  | VStr string
  | VList "val list"
  | VObj "(string \<times> val) list"

type_synonym obj = "(string \<times> val) list"
type_synonym row = obj
type_synonym sql = string

text \<open>
  What a \<^verbatim>\<open>throw\<close> or a rejected promise carries: one of the error classes the
  builders construct or meet, or any other JavaScript value.
\<close>

datatype thrown =
    Error string
  | TypeError string
  | GraphQLError string
  | Rejection val

text \<open>\<^verbatim>\<open>e.message\<close> when it is a string.\<close>

fun message :: "thrown \<Rightarrow> string option" where
  "message (Error m) = Some m"
| "message (TypeError m) = Some m"
| "message (GraphQLError m) = Some m"
| "message (Rejection (VObj kvs)) =
     (case map_of kvs ''message'' of Some (VStr m) \<Rightarrow> Some m | _ \<Rightarrow> None)"
| "message (Rejection v) = None"

text \<open>
  The handler every MySQL and SQLite resolver ends with:
  \<^verbatim>\<open>
  catch (e) {
    if (typeof e === 'object' && typeof (<any> e).message === 'string') {
      throw new GraphQLError((<any> e).message);
    }
    throw e;
  }
  \<close>
  \<^verbatim>\<open>typeof null\<close> is \<^verbatim>\<open>'object'\<close>, so reading \<^verbatim>\<open>message\<close> of a thrown \<^verbatim>\<open>null\<close> raises a
  TypeError inside the handler.
\<close>

fun caught :: "thrown \<Rightarrow> thrown" where
  "caught (Error m) = GraphQLError m"
| "caught (TypeError m) = GraphQLError m"
| "caught (GraphQLError m) = GraphQLError m"
| "caught (Rejection VNull) = TypeError ''Cannot read properties of null (reading message)''"
| "caught (Rejection (VObj kvs)) =
     (case map_of kvs ''message'' of
        Some (VStr m) \<Rightarrow> GraphQLError m
      | _ \<Rightarrow> Rejection (VObj kvs))"
| "caught (Rejection v) = Rejection v"

text \<open>
  A drizzle table object. \<open>table_id\<close> stands for the object's identity, which the
  builders compare with \<^verbatim>\<open>===\<close>. A JavaScript variable of type \<^verbatim>\<open>Table\<close> is a
  \<open>table option\<close>: \<open>None\<close> is \<^verbatim>\<open>undefined\<close>, which a failed lookup under the
  non-null assertion \<^verbatim>\<open>!\<close> or under \<^verbatim>\<open>as\<close> yields at run time.
\<close>

datatype table = Table (table_id: nat) (table_columns: "string list")

datatype relation =
    One (referencedTable: table)
  | Many (referencedTable: table)

fun is_Many :: "relation \<Rightarrow> bool" where
  "is_Many (Many t) = True"
| "is_Many (One t) = False"

text \<open>The configuration object handed to \<^verbatim>\<open>findMany\<close> and \<^verbatim>\<open>findFirst\<close>.\<close>

datatype select_config =
  SelectConfig
    (cfg_columns: "string list")
    (cfg_offset: "int option")
    (cfg_limit: "int option")
    (cfg_orderBy: "sql list option")
    (cfg_where: "sql option")
    (cfg_with: "(string \<times> select_config) list option")

datatype insert_values = ValuesOne obj | ValuesMany "obj list"

text \<open>
  The statements of the query builder: \<^verbatim>\<open>db.insert(t).values(v)\<close>, optionally with
  \<^verbatim>\<open>.returning(columns)\<close> and \<^verbatim>\<open>.onConflictDoNothing()\<close>; \<^verbatim>\<open>db.update(t).set(v)\<close> and
  \<^verbatim>\<open>db.delete(t)\<close>, optionally with \<^verbatim>\<open>.where(filters)\<close> and \<^verbatim>\<open>.returning(columns)\<close>.
\<close>

datatype statement =
    Insert "table option" insert_values
      (ins_returning: "string list option") (ins_onConflictDoNothing: bool)
  | Update "table option" obj (upd_where: "sql option") (upd_returning: "string list option")
  | Delete "table option" (del_where: "sql option") (del_returning: "string list option")

datatype query =
    FindMany string select_config
  | FindFirst string select_config
  | Mutation statement

text \<open>
  The drizzle instance: the table names under \<^verbatim>\<open>db.query\<close> and what the executor
  answers to an awaited query, rows or a rejection. (What MySQL answers to a statement
  without \<^verbatim>\<open>returning\<close> is not rows; its resolvers drop the answer.)
\<close>

record db =
  db_query :: "string list"
  findMany :: "string \<Rightarrow> select_config \<Rightarrow> thrown + row list"
  findFirst :: "string \<Rightarrow> select_config \<Rightarrow> thrown + row option"
  execute :: "statement \<Rightarrow> thrown + row list"

text \<open>
  \<^verbatim>\<open>db.query[tableName]\<close>. \<^verbatim>\<open>db.query\<close> is a plain object, so the lookup finds the query
  builder of a table registered under that name, or else a member inherited from
  \<^verbatim>\<open>Object.prototype\<close>, or else \<^verbatim>\<open>undefined\<close>. The builders test the result for truthiness
  only: an inherited member passes the test, but it has no \<^verbatim>\<open>findMany\<close> or \<^verbatim>\<open>findFirst\<close>.
\<close>

definition object_prototype_keys :: "string list" where
  "object_prototype_keys =
     [''constructor'', ''hasOwnProperty'', ''isPrototypeOf'', ''propertyIsEnumerable'',
      ''toLocaleString'', ''toString'', ''valueOf'', ''__proto__'',
      ''__defineGetter__'', ''__defineSetter__'', ''__lookupGetter__'', ''__lookupSetter__'']"

datatype query_lookup = Builder | PrototypeMember | Missing

definition query_at :: "db \<Rightarrow> string \<Rightarrow> query_lookup" where
  "query_at d tableName =
     (if tableName \<in> set (db_query d) then Builder
      else if tableName \<in> set object_prototype_keys then PrototypeMember
      else Missing)"

text \<open>
  Calling \<^verbatim>\<open>queryBase.findMany(...)\<close> on an inherited member: the arguments are evaluated
  first, then the call of \<^verbatim>\<open>undefined\<close> raises a TypeError. Nothing is awaited.
\<close>

definition not_a_function :: "string \<Rightarrow> thrown" where
  "not_a_function method = TypeError (''queryBase.'' @ method @ '' is not a function'')"

datatype resolver_context = Context (context_db: "db option")

subsection \<open>Resolvers as computations over the executor trace\<close>

text \<open>
  The trace lists, in order, every query that was awaited, with what the executor
  answered: a rejection, rows, or the row-or-absent of \<^verbatim>\<open>findFirst\<close>.
\<close>

datatype answer =
    Rejected thrown
  | Rows "row list"
  | OneRow "row option"

type_synonym trace = "(query \<times> answer) list"
type_synonym 'a io = "trace \<Rightarrow> (thrown + 'a) \<times> trace"

definition returnIO :: "'a \<Rightarrow> 'a io" where
  "returnIO v = (\<lambda>tr. (Inr v, tr))"

definition throwIO :: "thrown \<Rightarrow> 'a io" where
  "throwIO e = (\<lambda>tr. (Inl e, tr))"

definition bindIO :: "'a io \<Rightarrow> ('a \<Rightarrow> 'b io) \<Rightarrow> 'b io" where
  "bindIO m f = (\<lambda>tr. case m tr of (Inl e, tr') \<Rightarrow> (Inl e, tr') | (Inr v, tr') \<Rightarrow> f v tr')"

text \<open>A synchronous call that may throw.\<close>

definition call :: "thrown + 'a \<Rightarrow> 'a io" where
  "call r = (\<lambda>tr. (r, tr))"

text \<open>\<^verbatim>\<open>await query\<close>: the query reaches the executor once and its answer comes back.\<close>

definition await :: "query \<Rightarrow> ('a \<Rightarrow> answer) \<Rightarrow> thrown + 'a \<Rightarrow> 'a io" where
  "await q shape r =
     (\<lambda>tr. (r, tr @ [(q, case r of Inl e \<Rightarrow> Rejected e | Inr v \<Rightarrow> shape v)]))"

text \<open>\<^verbatim>\<open>try { ... } catch (e) { ... }\<close> with the handler \<open>caught\<close>.\<close>

definition try_catch :: "'a io \<Rightarrow> 'a io" where
  "try_catch m = (\<lambda>tr. case m tr of (Inl e, tr') \<Rightarrow> (Inl (caught e), tr') | (Inr v, tr') \<Rightarrow> (Inr v, tr'))"

text \<open>Sequencing of synchronous calls that may throw.\<close>

definition bindE :: "thrown + 'a \<Rightarrow> ('a \<Rightarrow> thrown + 'b) \<Rightarrow> thrown + 'b" where
  "bindE r f = (case r of Inl e \<Rightarrow> Inl e | Inr v \<Rightarrow> f v)"

text \<open>An optional argument compiled only when it is truthy: \<^verbatim>\<open>x ? f(x) : undefined\<close>.\<close>

definition optionally :: "'a option \<Rightarrow> ('a \<Rightarrow> thrown + 'b) \<Rightarrow> thrown + 'b option" where
  "optionally x f = (case x of None \<Rightarrow> Inr None | Some v \<Rightarrow> bindE (f v) (\<lambda>y. Inr (Some y)))"

definition when_given :: "'a option \<Rightarrow> ('a \<Rightarrow> thrown + 'b) \<Rightarrow> 'b option io" where
  "when_given x f = call (optionally x f)"

subsection \<open>JavaScript objects as association lists\<close>

text \<open>
  A \<^verbatim>\<open>Record<string, T>\<close> is a list of entries in insertion order. \<open>obj_set\<close> is the
  assignment \<^verbatim>\<open>o[k] = v\<close>: an existing key keeps its place and takes the new value.
  (JavaScript moves integer-like keys to the front; no property below depends on the
  order of the entries of a map.)
\<close>

fun obj_set :: "(string \<times> 'a) list \<Rightarrow> string \<Rightarrow> 'a \<Rightarrow> (string \<times> 'a) list" where
  "obj_set [] k v = [(k, v)]"
| "obj_set ((k', v') # kvs) k v =
     (if k' = k then (k, v) # kvs else (k', v') # obj_set kvs k v)"

definition fromEntries :: "(string \<times> 'a) list \<Rightarrow> (string \<times> 'a) list" where
  "fromEntries es = foldl (\<lambda>acc (k, v). obj_set acc k v) [] es"

definition Object_keys :: "(string \<times> 'a) list \<Rightarrow> string list" where
  "Object_keys kvs = map fst kvs"

subsection \<open>GraphQL types, field selections and resolver arguments\<close>

datatype gql_type =
    GraphQLInt
  | GraphQLBoolean
  | GraphQLNonNull gql_type
  | GraphQLList gql_type
  | GraphQLInputObjectType string "(string \<times> gql_type) list"
  | GraphQLObjectType string "(string \<times> gql_type) list"
  | GraphQLUndefined

text \<open>A \<^verbatim>\<open>GraphQLFieldConfigArgumentMap\<close>: each argument name with its \<^verbatim>\<open>type\<close>.\<close>

type_synonym arg_map = "(string \<times> gql_type) list"

text \<open>
  \<^verbatim>\<open>m[k]!\<close> in a type position: the assertion \<^verbatim>\<open>!\<close> does nothing at run time, so a
  missing key yields \<^verbatim>\<open>undefined\<close>.
\<close>

definition type_at :: "(string \<times> gql_type) list \<Rightarrow> string \<Rightarrow> gql_type" where
  "type_at m k = (case map_of m k of None \<Rightarrow> GraphQLUndefined | Some t \<Rightarrow> t)"

text \<open>
  \<^verbatim>\<open>e.name\<close> used as a property key. The builders read it only from the object types
  that \<^verbatim>\<open>generateTableTypes\<close> returns; a wrapper type has no \<^verbatim>\<open>name\<close> and the key is
  the string \<^verbatim>\<open>undefined\<close>.
\<close>

fun type_name :: "gql_type \<Rightarrow> string" where
  "type_name (GraphQLInputObjectType n fs) = n"
| "type_name (GraphQLObjectType n fs) = n"
| "type_name GraphQLInt = ''Int''"
| "type_name GraphQLBoolean = ''Boolean''"
| "type_name t = ''undefined''"

text \<open>The selections of the operation's document (\<^verbatim>\<open>info.operation.selectionSet\<close>).\<close>

datatype selection =
    Field (field_name: string) (field_selectionSet: "selection list option")
  | FragmentSpread string
  | InlineFragment "selection list"

datatype resolve_info = Info (operation_selections: "selection list")

text \<open>What \<^verbatim>\<open>parseResolveInfo(info, { deep: true })\<close> returns.\<close>

datatype resolve_tree =
  ResolveTree (rt_name: string) (rt_args: obj)
    (fieldsByTypeName: "(string \<times> (string \<times> resolve_tree) list) list")

record select_args =
  sel_offset :: "int option"
  sel_limit :: "int option"
  sel_orderBy :: "obj option"
  sel_where :: "obj option"

record insert_array_args =
  values_array :: "obj list"

record insert_single_args =
  values_single :: obj

record update_args =
  upd_arg_where :: "obj option"
  upd_arg_set :: obj

record delete_args =
  del_arg_where :: "obj option"

record named_relation =
  nr_relation :: relation
  targetTableName :: string

type_synonym relation_map = "(string \<times> (string \<times> named_relation) list) list"

text \<open>The types \<^verbatim>\<open>generateTableTypes\<close> returns for one table (inputs and outputs).\<close>

record table_types =
  insertInput :: gql_type
  updateInput :: gql_type
  tableFilters :: gql_type
  tableOrder :: gql_type
  selectSingleOutput :: gql_type
  selectArrOutput :: gql_type
  singleTableItemOutput :: gql_type
  arrTableItemOutput :: gql_type

subsection \<open>The helpers the MySQL and SQLite builders import\<close>

text \<open>
  \<^verbatim>\<open>@/util/builders/common\<close>, \<^verbatim>\<open>@/util/case-ops\<close>, \<^verbatim>\<open>@/util/data-mappers\<close> and
  \<^verbatim>\<open>graphql-parse-resolve-info\<close> are not among the sources at hand. The builders are
  embedded over any implementation of them; each call may throw.
\<close>

record helpers =
  capitalize :: "string \<Rightarrow> string"
  uncapitalize :: "string \<Rightarrow> string"
  parseResolveInfo :: "resolve_info \<Rightarrow> thrown + resolve_tree"
  databaseOfContext :: "db \<Rightarrow> resolver_context \<Rightarrow> thrown + db"
  extractFilters :: "table option \<Rightarrow> string \<Rightarrow> obj \<Rightarrow> thrown + sql"
  extractOrderBy :: "table option \<Rightarrow> obj \<Rightarrow> thrown + sql list"
  extractRelationsParams ::
    "relation_map \<Rightarrow> (string \<times> table) list \<Rightarrow> string \<Rightarrow> resolve_tree \<Rightarrow> string
      \<Rightarrow> thrown + (string \<times> select_config) list option"
  extractSelectedColumnsFromTree ::
    "(string \<times> resolve_tree) list option \<Rightarrow> table option \<Rightarrow> thrown + string list"
  extractSelectedColumnsFromTreeSQLFormat ::
    "(string \<times> resolve_tree) list option \<Rightarrow> table option \<Rightarrow> thrown + string list"
  remapFromGraphQLArrayInput :: "obj list \<Rightarrow> table option \<Rightarrow> thrown + obj list"
  remapFromGraphQLSingleInput :: "obj \<Rightarrow> table option \<Rightarrow> thrown + obj"
  remapToGraphQLArrayOutput ::
    "row list \<Rightarrow> string \<Rightarrow> table option \<Rightarrow> relation_map option \<Rightarrow> thrown + val"
  remapToGraphQLSingleOutput ::
    "row \<Rightarrow> string \<Rightarrow> table option \<Rightarrow> relation_map option \<Rightarrow> thrown + val"
  generateTableTypes ::
    "string \<Rightarrow> (string \<times> table) list \<Rightarrow> relation_map \<Rightarrow> bool \<Rightarrow> int option
      \<Rightarrow> thrown + table_types"

section \<open>The MySQL builder (\<^verbatim>\<open>src/util/builders/mysql.ts\<close>)\<close>

text \<open>
  A created resolver is its \<^verbatim>\<open>name\<close>, its \<^verbatim>\<open>args\<close> and its \<^verbatim>\<open>resolver\<close>; the resolver's
  unused first parameter \<^verbatim>\<open>source\<close> is left out, and its parameter \<^verbatim>\<open>context\<close> is
  written \<open>ctx\<close>.
\<close>

definition table_not_found :: "string \<Rightarrow> string" where
  "table_not_found tableName =
     ''Table '' @ tableName
       @ '' not found in drizzle instance. Did you forget to pass schema to drizzle constructor?''"

definition isSuccess :: val where
  "isSuccess = VObj [(''isSuccess'', VBool True)]"

definition generateSelectArray_mysql_name :: "helpers \<Rightarrow> string \<Rightarrow> string" where
  "generateSelectArray_mysql_name h tableName = uncapitalize h tableName"

definition generateSelectArray_mysql_args :: "gql_type \<Rightarrow> gql_type \<Rightarrow> arg_map" where
  "generateSelectArray_mysql_args orderArgs filterArgs =
     [(''offset'', GraphQLInt), (''limit'', GraphQLInt),
      (''orderBy'', orderArgs), (''where'', filterArgs)]"

definition generateSelectArray_mysql_resolver ::
  "helpers \<Rightarrow> db \<Rightarrow> string \<Rightarrow> (string \<times> table) list \<Rightarrow> relation_map
    \<Rightarrow> select_args \<Rightarrow> resolver_context \<Rightarrow> resolve_info \<Rightarrow> val option io" where
  "generateSelectArray_mysql_resolver h db tableName tables relationMap args ctx info =
     (let typeName = capitalize h tableName @ ''SelectItem'';
          table = map_of tables tableName
      in try_catch
        (bindIO (call (parseResolveInfo h info)) (\<lambda>parsedInfo.
         bindIO (call (databaseOfContext h db ctx)) (\<lambda>dynamicDb.
         if query_at dynamicDb tableName = Missing
         then throwIO (Error (''Drizzle-GraphQL Error: '' @ table_not_found tableName))
         else
         bindIO (call (extractSelectedColumnsFromTree h
                   (map_of (fieldsByTypeName parsedInfo) typeName) table)) (\<lambda>columns.
         bindIO (when_given (sel_orderBy args) (extractOrderBy h table)) (\<lambda>orderBy.
         bindIO (when_given (sel_where args) (extractFilters h table tableName)) (\<lambda>filters.
         bindIO (if map_of relationMap tableName \<noteq> None
                 then call (extractRelationsParams h relationMap tables tableName parsedInfo typeName)
                 else returnIO None) (\<lambda>withFields.
         let config = SelectConfig columns (sel_offset args) (sel_limit args)
                        orderBy filters withFields
         in
         if query_at dynamicDb tableName = PrototypeMember then throwIO (not_a_function ''findMany'')
         else
         bindIO (await (FindMany tableName config) Rows (findMany dynamicDb tableName config)) (\<lambda>result.
         bindIO (call (remapToGraphQLArrayOutput h result tableName table (Some relationMap)))
           (\<lambda>out. returnIO (Some out)))))))))))"

definition generateSelectSingle_mysql_name :: "helpers \<Rightarrow> string \<Rightarrow> string" where
  "generateSelectSingle_mysql_name h tableName = uncapitalize h tableName @ ''Single''"

definition generateSelectSingle_mysql_args :: "gql_type \<Rightarrow> gql_type \<Rightarrow> arg_map" where
  "generateSelectSingle_mysql_args orderArgs filterArgs =
     [(''offset'', GraphQLInt), (''orderBy'', orderArgs), (''where'', filterArgs)]"

definition generateSelectSingle_mysql_resolver ::
  "helpers \<Rightarrow> db \<Rightarrow> string \<Rightarrow> (string \<times> table) list \<Rightarrow> relation_map
    \<Rightarrow> select_args \<Rightarrow> resolver_context \<Rightarrow> resolve_info \<Rightarrow> val option io" where
  "generateSelectSingle_mysql_resolver h db tableName tables relationMap args ctx info =
     (let typeName = capitalize h tableName @ ''SelectItem'';
          table = map_of tables tableName
      in try_catch
        (bindIO (call (parseResolveInfo h info)) (\<lambda>parsedInfo.
         bindIO (call (databaseOfContext h db ctx)) (\<lambda>dynamicDb.
         if query_at dynamicDb tableName = Missing
         then throwIO (Error (''Drizzle-GraphQL Error: '' @ table_not_found tableName))
         else
         bindIO (call (extractSelectedColumnsFromTree h
                   (map_of (fieldsByTypeName parsedInfo) typeName) table)) (\<lambda>columns.
         bindIO (when_given (sel_orderBy args) (extractOrderBy h table)) (\<lambda>orderBy.
         bindIO (when_given (sel_where args) (extractFilters h table tableName)) (\<lambda>filters.
         bindIO (if map_of relationMap tableName \<noteq> None
                 then call (extractRelationsParams h relationMap tables tableName parsedInfo typeName)
                 else returnIO None) (\<lambda>withFields.
         let config = SelectConfig columns (sel_offset args) None orderBy filters withFields
         in
         if query_at dynamicDb tableName = PrototypeMember then throwIO (not_a_function ''findFirst'')
         else
         bindIO (await (FindFirst tableName config) OneRow (findFirst dynamicDb tableName config)) (\<lambda>result.
         case result of
           None \<Rightarrow> returnIO None
         | Some r \<Rightarrow>
             bindIO (call (remapToGraphQLSingleOutput h r tableName table (Some relationMap)))
               (\<lambda>out. returnIO (Some out)))))))))))"

definition generateInsertArray_mysql_name :: "helpers \<Rightarrow> string \<Rightarrow> string" where
  "generateInsertArray_mysql_name h tableName = ''insertInto'' @ capitalize h tableName"

definition generateInsertArray_args :: "gql_type \<Rightarrow> arg_map" where
  "generateInsertArray_args baseType =
     [(''values'', GraphQLNonNull (GraphQLList (GraphQLNonNull baseType)))]"

definition generateInsertArray_mysql_resolver ::
  "helpers \<Rightarrow> db \<Rightarrow> string \<Rightarrow> table option
    \<Rightarrow> insert_array_args \<Rightarrow> resolver_context \<Rightarrow> resolve_info \<Rightarrow> val option io" where
  "generateInsertArray_mysql_resolver h db tableName table args ctx info =
     try_catch
       (bindIO (call (remapFromGraphQLArrayInput h (values_array args) table)) (\<lambda>input.
        if length input = 0 then throwIO (GraphQLError ''No values were provided!'')
        else
        bindIO (call (databaseOfContext h db ctx)) (\<lambda>dynamicDb.
        let stmt = Insert table (ValuesMany input) None False
        in
        bindIO (await (Mutation stmt) Rows (execute dynamicDb stmt)) (\<lambda>result.
        returnIO (Some isSuccess)))))"

definition generateInsertSingle_mysql_name :: "helpers \<Rightarrow> string \<Rightarrow> string" where
  "generateInsertSingle_mysql_name h tableName =
     ''insertInto'' @ capitalize h tableName @ ''Single''"

definition generateInsertSingle_args :: "gql_type \<Rightarrow> arg_map" where
  "generateInsertSingle_args baseType = [(''values'', GraphQLNonNull baseType)]"

definition generateInsertSingle_mysql_resolver ::
  "helpers \<Rightarrow> db \<Rightarrow> string \<Rightarrow> table option
    \<Rightarrow> insert_single_args \<Rightarrow> resolver_context \<Rightarrow> resolve_info \<Rightarrow> val option io" where
  "generateInsertSingle_mysql_resolver h db tableName table args ctx info =
     try_catch
       (bindIO (call (remapFromGraphQLSingleInput h (values_single args) table)) (\<lambda>input.
        bindIO (call (databaseOfContext h db ctx)) (\<lambda>dynamicDb.
        let stmt = Insert table (ValuesOne input) None False
        in
        bindIO (await (Mutation stmt) Rows (execute dynamicDb stmt)) (\<lambda>result.
        returnIO (Some isSuccess)))))"

definition generateUpdate_mysql_name :: "helpers \<Rightarrow> string \<Rightarrow> string" where
  "generateUpdate_mysql_name h tableName = ''update'' @ capitalize h tableName"

definition generateUpdate_args :: "gql_type \<Rightarrow> gql_type \<Rightarrow> arg_map" where
  "generateUpdate_args setArgs filterArgs =
     [(''set'', GraphQLNonNull setArgs), (''where'', filterArgs)]"

definition generateUpdate_mysql_resolver ::
  "helpers \<Rightarrow> db \<Rightarrow> string \<Rightarrow> table option
    \<Rightarrow> update_args \<Rightarrow> resolver_context \<Rightarrow> resolve_info \<Rightarrow> val option io" where
  "generateUpdate_mysql_resolver h db tableName table args ctx info =
     try_catch
       (bindIO (call (remapFromGraphQLSingleInput h (upd_arg_set args) table)) (\<lambda>input.
        if length (Object_keys input) = 0
        then throwIO (GraphQLError ''Unable to update with no values specified!'')
        else
        bindIO (call (databaseOfContext h db ctx)) (\<lambda>dynamicDb.
        bindIO (when_given (upd_arg_where args) (extractFilters h table tableName)) (\<lambda>filters.
        let stmt = Update table input filters None
        in
        bindIO (await (Mutation stmt) Rows (execute dynamicDb stmt)) (\<lambda>result.
        returnIO (Some isSuccess))))))"

text \<open>The MySQL delete is named from the table name as it is, without \<^verbatim>\<open>capitalize\<close>.\<close>

definition generateDelete_mysql_name :: "helpers \<Rightarrow> string \<Rightarrow> string" where
  "generateDelete_mysql_name h tableName = ''deleteFrom'' @ tableName"

definition generateDelete_args :: "gql_type \<Rightarrow> arg_map" where
  "generateDelete_args filterArgs = [(''where'', filterArgs)]"

definition generateDelete_mysql_resolver ::
  "helpers \<Rightarrow> db \<Rightarrow> string \<Rightarrow> table option
    \<Rightarrow> delete_args \<Rightarrow> resolver_context \<Rightarrow> resolve_info \<Rightarrow> val option io" where
  "generateDelete_mysql_resolver h db tableName table args ctx info =
     try_catch
       (bindIO (call (databaseOfContext h db ctx)) (\<lambda>dynamicDb.
        bindIO (when_given (del_arg_where args) (extractFilters h table tableName)) (\<lambda>filters.
        let stmt = Delete table filters None
        in
        bindIO (await (Mutation stmt) Rows (execute dynamicDb stmt)) (\<lambda>result.
        returnIO (Some isSuccess)))))"

section \<open>The SQLite builder (second file of \<^verbatim>\<open>src/util/builders/mysql.ts\<close>)\<close>

definition generateSelectArray_sqlite_name :: "helpers \<Rightarrow> string \<Rightarrow> string" where
  "generateSelectArray_sqlite_name h tableName = uncapitalize h tableName"

definition generateSelectArray_sqlite_args :: "gql_type \<Rightarrow> gql_type \<Rightarrow> arg_map" where
  "generateSelectArray_sqlite_args orderArgs filterArgs =
     [(''offset'', GraphQLInt), (''limit'', GraphQLInt),
      (''orderBy'', orderArgs), (''where'', filterArgs)]"

definition generateSelectArray_sqlite_resolver ::
  "helpers \<Rightarrow> db \<Rightarrow> string \<Rightarrow> (string \<times> table) list \<Rightarrow> relation_map
    \<Rightarrow> select_args \<Rightarrow> resolver_context \<Rightarrow> resolve_info \<Rightarrow> val option io" where
  "generateSelectArray_sqlite_resolver h db tableName tables relationMap args ctx info =
     (let typeName = capitalize h tableName @ ''SelectItem'';
          table = map_of tables tableName
      in try_catch
        (bindIO (call (parseResolveInfo h info)) (\<lambda>parsedInfo.
         bindIO (call (databaseOfContext h db ctx)) (\<lambda>dynamicDb.
         if query_at dynamicDb tableName = Missing
         then throwIO (Error (''Drizzle-GraphQL Error: '' @ table_not_found tableName))
         else
         bindIO (call (extractSelectedColumnsFromTree h
                   (map_of (fieldsByTypeName parsedInfo) typeName) table)) (\<lambda>columns.
         bindIO (when_given (sel_orderBy args) (extractOrderBy h table)) (\<lambda>orderBy.
         bindIO (when_given (sel_where args) (extractFilters h table tableName)) (\<lambda>filters.
         bindIO (if map_of relationMap tableName \<noteq> None
                 then call (extractRelationsParams h relationMap tables tableName parsedInfo typeName)
                 else returnIO None) (\<lambda>withFields.
         let config = SelectConfig columns (sel_offset args) (sel_limit args)
                        orderBy filters withFields
         in
         if query_at dynamicDb tableName = PrototypeMember then throwIO (not_a_function ''findMany'')
         else
         bindIO (await (FindMany tableName config) Rows (findMany dynamicDb tableName config)) (\<lambda>result.
         bindIO (call (remapToGraphQLArrayOutput h result tableName table (Some relationMap)))
           (\<lambda>out. returnIO (Some out)))))))))))"

definition generateSelectSingle_sqlite_name :: "helpers \<Rightarrow> string \<Rightarrow> string" where
  "generateSelectSingle_sqlite_name h tableName = uncapitalize h tableName @ ''Single''"

definition generateSelectSingle_sqlite_args :: "gql_type \<Rightarrow> gql_type \<Rightarrow> arg_map" where
  "generateSelectSingle_sqlite_args orderArgs filterArgs =
     [(''offset'', GraphQLInt), (''orderBy'', orderArgs), (''where'', filterArgs)]"

definition generateSelectSingle_sqlite_resolver ::
  "helpers \<Rightarrow> db \<Rightarrow> string \<Rightarrow> (string \<times> table) list \<Rightarrow> relation_map
    \<Rightarrow> select_args \<Rightarrow> resolver_context \<Rightarrow> resolve_info \<Rightarrow> val option io" where
  "generateSelectSingle_sqlite_resolver h db tableName tables relationMap args ctx info =
     (let typeName = capitalize h tableName @ ''SelectItem'';
          table = map_of tables tableName
      in try_catch
        (bindIO (call (parseResolveInfo h info)) (\<lambda>parsedInfo.
         bindIO (call (databaseOfContext h db ctx)) (\<lambda>dynamicDb.
         if query_at dynamicDb tableName = Missing
         then throwIO (Error (''Drizzle-GraphQL Error: '' @ table_not_found tableName))
         else
         bindIO (call (extractSelectedColumnsFromTree h
                   (map_of (fieldsByTypeName parsedInfo) typeName) table)) (\<lambda>columns.
         bindIO (when_given (sel_orderBy args) (extractOrderBy h table)) (\<lambda>orderBy.
         bindIO (when_given (sel_where args) (extractFilters h table tableName)) (\<lambda>filters.
         bindIO (if map_of relationMap tableName \<noteq> None
                 then call (extractRelationsParams h relationMap tables tableName parsedInfo typeName)
                 else returnIO None) (\<lambda>withFields.
         let config = SelectConfig columns (sel_offset args) None orderBy filters withFields
         in
         if query_at dynamicDb tableName = PrototypeMember then throwIO (not_a_function ''findFirst'')
         else
         bindIO (await (FindFirst tableName config) OneRow (findFirst dynamicDb tableName config)) (\<lambda>result.
         case result of
           None \<Rightarrow> returnIO None
         | Some r \<Rightarrow>
             bindIO (call (remapToGraphQLSingleOutput h r tableName table (Some relationMap)))
               (\<lambda>out. returnIO (Some out)))))))))))"

definition generateInsertArray_sqlite_name :: "helpers \<Rightarrow> string \<Rightarrow> string" where
  "generateInsertArray_sqlite_name h tableName = ''insertInto'' @ capitalize h tableName"

text \<open>The insert-many resolver awaits the statement on \<^verbatim>\<open>db\<close> itself, not on the
  database of the context.\<close>

definition generateInsertArray_sqlite_resolver ::
  "helpers \<Rightarrow> db \<Rightarrow> string \<Rightarrow> table option
    \<Rightarrow> insert_array_args \<Rightarrow> resolver_context \<Rightarrow> resolve_info \<Rightarrow> val option io" where
  "generateInsertArray_sqlite_resolver h db tableName table args ctx info =
     (let typeName = capitalize h tableName @ ''Item''
      in try_catch
       (bindIO (call (remapFromGraphQLArrayInput h (values_array args) table)) (\<lambda>input.
        if length input = 0 then throwIO (GraphQLError ''No values were provided!'')
        else
        bindIO (call (parseResolveInfo h info)) (\<lambda>parsedInfo.
        bindIO (call (extractSelectedColumnsFromTreeSQLFormat h
                  (map_of (fieldsByTypeName parsedInfo) typeName) table)) (\<lambda>columns.
        let stmt = Insert table (ValuesMany input) (Some columns) True
        in
        bindIO (await (Mutation stmt) Rows (execute db stmt)) (\<lambda>result.
        bindIO (call (remapToGraphQLArrayOutput h result tableName table None))
          (\<lambda>out. returnIO (Some out))))))))"

definition generateInsertSingle_sqlite_name :: "helpers \<Rightarrow> string \<Rightarrow> string" where
  "generateInsertSingle_sqlite_name h tableName =
     ''insertInto'' @ capitalize h tableName @ ''Single''"

definition generateInsertSingle_sqlite_resolver ::
  "helpers \<Rightarrow> db \<Rightarrow> string \<Rightarrow> table option
    \<Rightarrow> insert_single_args \<Rightarrow> resolver_context \<Rightarrow> resolve_info \<Rightarrow> val option io" where
  "generateInsertSingle_sqlite_resolver h db tableName table args ctx info =
     (let typeName = capitalize h tableName @ ''Item''
      in try_catch
       (bindIO (call (remapFromGraphQLSingleInput h (values_single args) table)) (\<lambda>input.
        bindIO (call (parseResolveInfo h info)) (\<lambda>parsedInfo.
        bindIO (call (extractSelectedColumnsFromTreeSQLFormat h
                  (map_of (fieldsByTypeName parsedInfo) typeName) table)) (\<lambda>columns.
        bindIO (call (databaseOfContext h db ctx)) (\<lambda>dynamicDb.
        let stmt = Insert table (ValuesOne input) (Some columns) True
        in
        bindIO (await (Mutation stmt) Rows (execute dynamicDb stmt)) (\<lambda>result.
        case result of
          [] \<Rightarrow> returnIO None
        | r # rest \<Rightarrow>
            bindIO (call (remapToGraphQLSingleOutput h r tableName table None))
              (\<lambda>out. returnIO (Some out)))))))))"

definition generateUpdate_sqlite_name :: "helpers \<Rightarrow> string \<Rightarrow> string" where
  "generateUpdate_sqlite_name h tableName = ''update'' @ capitalize h tableName"

definition generateUpdate_sqlite_resolver ::
  "helpers \<Rightarrow> db \<Rightarrow> string \<Rightarrow> table option
    \<Rightarrow> update_args \<Rightarrow> resolver_context \<Rightarrow> resolve_info \<Rightarrow> val option io" where
  "generateUpdate_sqlite_resolver h db tableName table args ctx info =
     (let typeName = capitalize h tableName @ ''Item''
      in try_catch
       (bindIO (call (parseResolveInfo h info)) (\<lambda>parsedInfo.
        bindIO (call (extractSelectedColumnsFromTreeSQLFormat h
                  (map_of (fieldsByTypeName parsedInfo) typeName) table)) (\<lambda>columns.
        bindIO (call (remapFromGraphQLSingleInput h (upd_arg_set args) table)) (\<lambda>input.
        if length (Object_keys input) = 0
        then throwIO (GraphQLError ''Unable to update with no values specified!'')
        else
        bindIO (call (databaseOfContext h db ctx)) (\<lambda>dynamicDb.
        bindIO (when_given (upd_arg_where args) (extractFilters h table tableName)) (\<lambda>filters.
        let stmt = Update table input filters (Some columns)
        in
        bindIO (await (Mutation stmt) Rows (execute dynamicDb stmt)) (\<lambda>result.
        bindIO (call (remapToGraphQLArrayOutput h result tableName table None))
          (\<lambda>out. returnIO (Some out))))))))))"

definition generateDelete_sqlite_name :: "helpers \<Rightarrow> string \<Rightarrow> string" where
  "generateDelete_sqlite_name h tableName = ''deleteFrom'' @ capitalize h tableName"

definition generateDelete_sqlite_resolver ::
  "helpers \<Rightarrow> db \<Rightarrow> string \<Rightarrow> table option
    \<Rightarrow> delete_args \<Rightarrow> resolver_context \<Rightarrow> resolve_info \<Rightarrow> val option io" where
  "generateDelete_sqlite_resolver h db tableName table args ctx info =
     (let typeName = capitalize h tableName @ ''Item''
      in try_catch
       (bindIO (call (parseResolveInfo h info)) (\<lambda>parsedInfo.
        bindIO (call (extractSelectedColumnsFromTreeSQLFormat h
                  (map_of (fieldsByTypeName parsedInfo) typeName) table)) (\<lambda>columns.
        bindIO (call (databaseOfContext h db ctx)) (\<lambda>dynamicDb.
        bindIO (when_given (del_arg_where args) (extractFilters h table tableName)) (\<lambda>filters.
        let stmt = Delete table filters (Some columns)
        in
        bindIO (await (Mutation stmt) Rows (execute dynamicDb stmt)) (\<lambda>result.
        bindIO (call (remapToGraphQLArrayOutput h result tableName table None))
          (\<lambda>out. returnIO (Some out)))))))))"

section \<open>The Postgres builder (\<^verbatim>\<open>src/Util/Builders/vanilla/pg.ts\<close>)\<close>

record select_args_pg = select_args +
  sel_relations :: "(string \<times> select_args) list option"

record table_types_pg = table_types +
  relationFilters :: "(string \<times> gql_type) list"
  relationOrder :: "(string \<times> gql_type) list"

text \<open>
  The helpers of \<^verbatim>\<open>@/Util/Builders/vanilla/common\<close>, \<^verbatim>\<open>@/Util/caseOps\<close> and
  \<^verbatim>\<open>@/Util/dataMappers\<close>, which are not among the sources at hand either.
\<close>

record vanilla_helpers =
  camelize :: "string \<Rightarrow> string"
  pascalize :: "string \<Rightarrow> string"
  extractFilters_pg :: "table option \<Rightarrow> string \<Rightarrow> obj \<Rightarrow> thrown + sql"
  extractOrderBy_pg :: "table option \<Rightarrow> obj \<Rightarrow> thrown + sql list"
  extractSelectedColumnsFromNode :: "selection option \<Rightarrow> table option \<Rightarrow> thrown + string list"
  extractSelectedColumnsSQLFormat ::
    "resolve_info \<Rightarrow> string \<Rightarrow> table option \<Rightarrow> thrown + string list"
  remapFromGraphQLArrayInput_pg :: "obj list \<Rightarrow> table option \<Rightarrow> thrown + obj list"
  remapFromGraphQLSingleInput_pg :: "obj \<Rightarrow> table option \<Rightarrow> thrown + obj"
  remapToGraphQLArrayOutput_pg ::
    "row list \<Rightarrow> (string \<times> relation) list option \<Rightarrow> thrown + val"
  remapToGraphQLSingleOutput_pg ::
    "row \<Rightarrow> (string \<times> relation) list option \<Rightarrow> thrown + val"
  generateTableTypes_pg ::
    "string \<Rightarrow> table option \<Rightarrow> bool \<Rightarrow> (string \<times> relation) list option
      \<Rightarrow> thrown + table_types_pg"

text \<open>\<^verbatim>\<open>e.kind === Kind.FIELD && e.name.value === n\<close>\<close>

fun is_field_named :: "string \<Rightarrow> selection \<Rightarrow> bool" where
  "is_field_named n (Field m ss) = (m = n)"
| "is_field_named n s = False"

text \<open>\<^verbatim>\<open>node.selectionSet\<close>: a fragment spread has none.\<close>

fun selectionSet :: "selection \<Rightarrow> selection list option" where
  "selectionSet (Field m ss) = ss"
| "selectionSet (InlineFragment ss) = Some ss"
| "selectionSet (FragmentSpread m) = None"

text \<open>
  The type of the \<^verbatim>\<open>relations\<close> argument, built alike by \<^verbatim>\<open>generateSelectArray\<close> and
  \<^verbatim>\<open>generateSelectSingle\<close> (lines 52-79 and 198-225):
  \<^verbatim>\<open>
  fields: is(relVal, Many)
    ? { where: ..., orderBy: ..., offset: { type: GraphQLInt }, limit: { type: GraphQLInt } }
    : { where: ..., orderBy: ..., offset: { type: GraphQLInt } }
  \<close>
\<close>

definition relationArgsFields ::
  "(string \<times> gql_type) list \<Rightarrow> (string \<times> gql_type) list \<Rightarrow> string \<Rightarrow> relation
    \<Rightarrow> (string \<times> gql_type) list" where
  "relationArgsFields relationsOrderArgs relationsFilterArgs relName relVal =
     (if is_Many relVal
      then [(''where'', type_at relationsFilterArgs relName),
            (''orderBy'', type_at relationsOrderArgs relName),
            (''offset'', GraphQLInt),
            (''limit'', GraphQLInt)]
      else [(''where'', type_at relationsFilterArgs relName),
            (''orderBy'', type_at relationsOrderArgs relName),
            (''offset'', GraphQLInt)])"

definition relationArgs ::
  "string \<Rightarrow> (string \<times> relation) list option
    \<Rightarrow> (string \<times> gql_type) list \<Rightarrow> (string \<times> gql_type) list \<Rightarrow> gql_type option" where
  "relationArgs queryName relations relationsOrderArgs relationsFilterArgs =
     (case relations of
        None \<Rightarrow> None
      | Some relationEntries \<Rightarrow>
          Some (GraphQLInputObjectType (queryName @ ''RelationArgs'')
            (fromEntries (map (\<lambda>(relName, relVal).
               (relName,
                GraphQLInputObjectType (queryName @ relName @ ''RelationArgs'')
                  (relationArgsFields relationsOrderArgs relationsFilterArgs relName relVal)))
               relationEntries))))"

text \<open>
  One round of the loop over the relation entries (lines 133-159 and 276-302): \<open>None\<close>
  is \<^verbatim>\<open>continue\<close>, otherwise the value stored under \<^verbatim>\<open>withFields[relName]\<close>. Reading
  \<^verbatim>\<open>tableSelection.selectionSet\<close> when no field of the operation has the query's name
  raises a TypeError.
\<close>

definition relationWithField ::
  "vanilla_helpers \<Rightarrow> selection option \<Rightarrow> (string \<times> select_args) list option
    \<Rightarrow> string \<times> relation \<Rightarrow> thrown + select_config option" where
  "relationWithField h tableSelection relationsArg entry =
     (case entry of (relName, relValue) \<Rightarrow>
      (case tableSelection of
         None \<Rightarrow> Inl (TypeError ''Cannot read properties of undefined (reading selectionSet)'')
       | Some sel \<Rightarrow>
          (case selectionSet sel of
             None \<Rightarrow> Inr None
           | Some selections \<Rightarrow>
              (case find (is_field_named relName) selections of
                 None \<Rightarrow> Inr None
               | Some node \<Rightarrow>
                  (let refTable = Some (referencedTable relValue);
                       relArgs = (case relationsArg of None \<Rightarrow> None | Some rs \<Rightarrow> map_of rs relName)
                   in
                   bindE (extractSelectedColumnsFromNode h (Some node) refTable) (\<lambda>columns.
                   bindE (optionally (case relArgs of None \<Rightarrow> None | Some a \<Rightarrow> sel_orderBy a)
                            (extractOrderBy_pg h refTable)) (\<lambda>orderBy.
                   bindE (optionally (case relArgs of None \<Rightarrow> None | Some a \<Rightarrow> sel_where a)
                            (extractFilters_pg h refTable relName)) (\<lambda>filters.
                   let offset = (case relArgs of None \<Rightarrow> None | Some a \<Rightarrow> sel_offset a);
                       limit = (case relArgs of None \<Rightarrow> None | Some a \<Rightarrow> sel_limit a)
                   in Inr (Some (SelectConfig columns offset limit orderBy filters None))))))))))"

fun relationsLoop ::
  "vanilla_helpers \<Rightarrow> selection option \<Rightarrow> (string \<times> select_args) list option
    \<Rightarrow> (string \<times> relation) list \<Rightarrow> (string \<times> select_config) list
    \<Rightarrow> thrown + (string \<times> select_config) list" where
  "relationsLoop h tableSelection relationsArg [] withFields = Inr withFields"
| "relationsLoop h tableSelection relationsArg (entry # rest) withFields =
     bindE (relationWithField h tableSelection relationsArg entry) (\<lambda>r.
       relationsLoop h tableSelection relationsArg rest
         (case r of None \<Rightarrow> withFields | Some c \<Rightarrow> obj_set withFields (fst entry) c))"

text \<open>The Postgres resolvers have no \<^verbatim>\<open>try\<close>/\<^verbatim>\<open>catch\<close> and use \<^verbatim>\<open>db\<close> itself.\<close>

definition generateSelectArray_pg_name :: "vanilla_helpers \<Rightarrow> string \<Rightarrow> string" where
  "generateSelectArray_pg_name h tableName = camelize h tableName"

definition generateSelectArray_pg_args ::
  "gql_type option \<Rightarrow> gql_type \<Rightarrow> gql_type \<Rightarrow> arg_map" where
  "generateSelectArray_pg_args relArgs orderArgs filterArgs =
     (case relArgs of
        Some ra \<Rightarrow>
          [(''offset'', GraphQLInt), (''limit'', GraphQLInt),
           (''orderBy'', orderArgs), (''where'', filterArgs), (''relations'', ra)]
      | None \<Rightarrow>
          [(''offset'', GraphQLInt), (''limit'', GraphQLInt),
           (''orderBy'', orderArgs), (''where'', filterArgs)])"

definition generateSelectArray_pg_resolver ::
  "vanilla_helpers \<Rightarrow> db \<Rightarrow> string \<Rightarrow> table option \<Rightarrow> (string \<times> relation) list option
    \<Rightarrow> select_args_pg \<Rightarrow> resolver_context \<Rightarrow> resolve_info \<Rightarrow> val option io" where
  "generateSelectArray_pg_resolver h db tableName table relations args ctx info =
     (let queryName = generateSelectArray_pg_name h tableName;
          tableSelection = find (is_field_named queryName) (operation_selections info)
      in
        (bindIO (call (extractSelectedColumnsFromNode h tableSelection table)) (\<lambda>columns.
         bindIO (call (case relations of
                         None \<Rightarrow> Inr []
                       | Some relationEntries \<Rightarrow>
                           relationsLoop h tableSelection (sel_relations args) relationEntries []))
           (\<lambda>withFields.
         bindIO (when_given (sel_orderBy args) (extractOrderBy_pg h table)) (\<lambda>orderBy.
         bindIO (when_given (sel_where args) (extractFilters_pg h table tableName)) (\<lambda>filters.
         let config = SelectConfig columns (sel_offset args) (sel_limit args) orderBy filters
                        (if length (Object_keys withFields) \<noteq> 0 then Some withFields else None)
         in
         if query_at db tableName = PrototypeMember then throwIO (not_a_function ''findMany'')
         else
         bindIO (await (FindMany tableName config) Rows (findMany db tableName config)) (\<lambda>result.
         bindIO (call (remapToGraphQLArrayOutput_pg h result relations))
           (\<lambda>out. returnIO (Some out)))))))))"

definition generateSelectSingle_pg_name :: "vanilla_helpers \<Rightarrow> string \<Rightarrow> string" where
  "generateSelectSingle_pg_name h tableName = camelize h tableName @ ''Single''"

text \<open>Lines 227-253: the branch for a table without relations lists \<^verbatim>\<open>limit\<close>.\<close>

definition generateSelectSingle_pg_args ::
  "gql_type option \<Rightarrow> gql_type \<Rightarrow> gql_type \<Rightarrow> arg_map" where
  "generateSelectSingle_pg_args relArgs orderArgs filterArgs =
     (case relArgs of
        Some ra \<Rightarrow>
          [(''offset'', GraphQLInt),
           (''orderBy'', orderArgs), (''where'', filterArgs), (''relations'', ra)]
      | None \<Rightarrow>
          [(''offset'', GraphQLInt), (''limit'', GraphQLInt),
           (''orderBy'', orderArgs), (''where'', filterArgs)])"

definition generateSelectSingle_pg_resolver ::
  "vanilla_helpers \<Rightarrow> db \<Rightarrow> string \<Rightarrow> table option \<Rightarrow> (string \<times> relation) list option
    \<Rightarrow> select_args_pg \<Rightarrow> resolver_context \<Rightarrow> resolve_info \<Rightarrow> val option io" where
  "generateSelectSingle_pg_resolver h db tableName table relations args ctx info =
     (let queryName = generateSelectSingle_pg_name h tableName;
          tableSelection = find (is_field_named queryName) (operation_selections info)
      in
        (bindIO (call (extractSelectedColumnsFromNode h tableSelection table)) (\<lambda>columns.
         bindIO (call (case relations of
                         None \<Rightarrow> Inr []
                       | Some relationEntries \<Rightarrow>
                           relationsLoop h tableSelection (sel_relations args) relationEntries []))
           (\<lambda>withFields.
         bindIO (when_given (sel_orderBy args) (extractOrderBy_pg h table)) (\<lambda>orderBy.
         bindIO (when_given (sel_where args) (extractFilters_pg h table tableName)) (\<lambda>filters.
         let config = SelectConfig columns (sel_offset args) None orderBy filters
                        (if length (Object_keys withFields) \<noteq> 0 then Some withFields else None)
         in
         if query_at db tableName = PrototypeMember then throwIO (not_a_function ''findFirst'')
         else
         bindIO (await (FindFirst tableName config) OneRow (findFirst db tableName config)) (\<lambda>result.
         case result of
           None \<Rightarrow> returnIO None
         | Some r \<Rightarrow>
             bindIO (call (remapToGraphQLSingleOutput_pg h r relations))
               (\<lambda>out. returnIO (Some out)))))))))"

definition generateInsertArray_pg_name :: "vanilla_helpers \<Rightarrow> string \<Rightarrow> string" where
  "generateInsertArray_pg_name h tableName = ''insertInto'' @ pascalize h tableName"

definition generateInsertArray_pg_resolver ::
  "vanilla_helpers \<Rightarrow> db \<Rightarrow> string \<Rightarrow> table option
    \<Rightarrow> insert_array_args \<Rightarrow> resolver_context \<Rightarrow> resolve_info \<Rightarrow> val option io" where
  "generateInsertArray_pg_resolver h db tableName table args ctx info =
     (let queryName = generateInsertArray_pg_name h tableName
      in
       (bindIO (call (remapFromGraphQLArrayInput_pg h (values_array args) table)) (\<lambda>input.
        if length input = 0 then throwIO (GraphQLError ''No values were provided!'')
        else
        bindIO (call (extractSelectedColumnsSQLFormat h info queryName table)) (\<lambda>columns.
        let stmt = Insert table (ValuesMany input) (Some columns) True
        in
        bindIO (await (Mutation stmt) Rows (execute db stmt)) (\<lambda>result.
        bindIO (call (remapToGraphQLArrayOutput_pg h result None))
          (\<lambda>out. returnIO (Some out)))))))"

definition generateInsertSingle_pg_name :: "vanilla_helpers \<Rightarrow> string \<Rightarrow> string" where
  "generateInsertSingle_pg_name h tableName =
     ''insertInto'' @ pascalize h tableName @ ''Single''"

definition generateInsertSingle_pg_resolver ::
  "vanilla_helpers \<Rightarrow> db \<Rightarrow> string \<Rightarrow> table option
    \<Rightarrow> insert_single_args \<Rightarrow> resolver_context \<Rightarrow> resolve_info \<Rightarrow> val option io" where
  "generateInsertSingle_pg_resolver h db tableName table args ctx info =
     (let queryName = generateInsertSingle_pg_name h tableName
      in
       (bindIO (call (remapFromGraphQLSingleInput_pg h (values_single args) table)) (\<lambda>input.
        bindIO (call (extractSelectedColumnsSQLFormat h info queryName table)) (\<lambda>columns.
        let stmt = Insert table (ValuesOne input) (Some columns) True
        in
        bindIO (await (Mutation stmt) Rows (execute db stmt)) (\<lambda>result.
        case result of
          [] \<Rightarrow> returnIO None
        | r # rest \<Rightarrow>
            bindIO (call (remapToGraphQLSingleOutput_pg h r None))
              (\<lambda>out. returnIO (Some out)))))))"

definition generateUpdate_pg_name :: "vanilla_helpers \<Rightarrow> string \<Rightarrow> string" where
  "generateUpdate_pg_name h tableName = ''update'' @ pascalize h tableName"

definition generateUpdate_pg_resolver ::
  "vanilla_helpers \<Rightarrow> db \<Rightarrow> string \<Rightarrow> table option
    \<Rightarrow> update_args \<Rightarrow> resolver_context \<Rightarrow> resolve_info \<Rightarrow> val option io" where
  "generateUpdate_pg_resolver h db tableName table args ctx info =
     (let queryName = generateUpdate_pg_name h tableName
      in
       (bindIO (call (extractSelectedColumnsSQLFormat h info queryName table)) (\<lambda>columns.
        bindIO (call (remapFromGraphQLSingleInput_pg h (upd_arg_set args) table)) (\<lambda>input.
        if length (Object_keys input) = 0
        then throwIO (GraphQLError ''Unable to update with no values specified!'')
        else
        bindIO (when_given (upd_arg_where args) (extractFilters_pg h table tableName)) (\<lambda>filters.
        let stmt = Update table input filters (Some columns)
        in
        bindIO (await (Mutation stmt) Rows (execute db stmt)) (\<lambda>result.
        bindIO (call (remapToGraphQLArrayOutput_pg h result None))
          (\<lambda>out. returnIO (Some out))))))))"

definition generateDelete_pg_name :: "vanilla_helpers \<Rightarrow> string \<Rightarrow> string" where
  "generateDelete_pg_name h tableName = ''deleteFrom'' @ pascalize h tableName"

definition generateDelete_pg_resolver ::
  "vanilla_helpers \<Rightarrow> db \<Rightarrow> string \<Rightarrow> table option
    \<Rightarrow> delete_args \<Rightarrow> resolver_context \<Rightarrow> resolve_info \<Rightarrow> val option io" where
  "generateDelete_pg_resolver h db tableName table args ctx info =
     (let queryName = generateDelete_pg_name h tableName
      in
       (bindIO (call (extractSelectedColumnsSQLFormat h info queryName table)) (\<lambda>columns.
        bindIO (when_given (del_arg_where args) (extractFilters_pg h table tableName)) (\<lambda>filters.
        let stmt = Delete table filters (Some columns)
        in
        bindIO (await (Mutation stmt) Rows (execute db stmt)) (\<lambda>result.
        bindIO (call (remapToGraphQLArrayOutput_pg h result None))
          (\<lambda>out. returnIO (Some out)))))))"

section \<open>Created resolvers and \<^verbatim>\<open>generateSchemaData\<close>\<close>

datatype resolve_fn =
    SelectResolver "select_args \<Rightarrow> resolver_context \<Rightarrow> resolve_info \<Rightarrow> val option io"
  | SelectResolverPg "select_args_pg \<Rightarrow> resolver_context \<Rightarrow> resolve_info \<Rightarrow> val option io"
  | InsertArrayResolver "insert_array_args \<Rightarrow> resolver_context \<Rightarrow> resolve_info \<Rightarrow> val option io"
  | InsertSingleResolver "insert_single_args \<Rightarrow> resolver_context \<Rightarrow> resolve_info \<Rightarrow> val option io"
  | UpdateResolver "update_args \<Rightarrow> resolver_context \<Rightarrow> resolve_info \<Rightarrow> val option io"
  | DeleteResolver "delete_args \<Rightarrow> resolver_context \<Rightarrow> resolve_info \<Rightarrow> val option io"

record created_resolver =
  cr_name :: string
  cr_resolver :: resolve_fn
  cr_args :: arg_map

definition generateSelectArray_mysql ::
  "helpers \<Rightarrow> db \<Rightarrow> string \<Rightarrow> (string \<times> table) list \<Rightarrow> relation_map
    \<Rightarrow> gql_type \<Rightarrow> gql_type \<Rightarrow> created_resolver" where
  "generateSelectArray_mysql h db tableName tables relationMap orderArgs filterArgs =
     \<lparr>cr_name = generateSelectArray_mysql_name h tableName,
      cr_resolver = SelectResolver (generateSelectArray_mysql_resolver h db tableName tables relationMap),
      cr_args = generateSelectArray_mysql_args orderArgs filterArgs\<rparr>"

definition generateSelectSingle_mysql ::
  "helpers \<Rightarrow> db \<Rightarrow> string \<Rightarrow> (string \<times> table) list \<Rightarrow> relation_map
    \<Rightarrow> gql_type \<Rightarrow> gql_type \<Rightarrow> created_resolver" where
  "generateSelectSingle_mysql h db tableName tables relationMap orderArgs filterArgs =
     \<lparr>cr_name = generateSelectSingle_mysql_name h tableName,
      cr_resolver = SelectResolver (generateSelectSingle_mysql_resolver h db tableName tables relationMap),
      cr_args = generateSelectSingle_mysql_args orderArgs filterArgs\<rparr>"

definition generateInsertArray_mysql ::
  "helpers \<Rightarrow> db \<Rightarrow> string \<Rightarrow> table option \<Rightarrow> gql_type \<Rightarrow> created_resolver" where
  "generateInsertArray_mysql h db tableName table baseType =
     \<lparr>cr_name = generateInsertArray_mysql_name h tableName,
      cr_resolver = InsertArrayResolver (generateInsertArray_mysql_resolver h db tableName table),
      cr_args = generateInsertArray_args baseType\<rparr>"

definition generateInsertSingle_mysql ::
  "helpers \<Rightarrow> db \<Rightarrow> string \<Rightarrow> table option \<Rightarrow> gql_type \<Rightarrow> created_resolver" where
  "generateInsertSingle_mysql h db tableName table baseType =
     \<lparr>cr_name = generateInsertSingle_mysql_name h tableName,
      cr_resolver = InsertSingleResolver (generateInsertSingle_mysql_resolver h db tableName table),
      cr_args = generateInsertSingle_args baseType\<rparr>"

definition generateUpdate_mysql ::
  "helpers \<Rightarrow> db \<Rightarrow> string \<Rightarrow> table option \<Rightarrow> gql_type \<Rightarrow> gql_type \<Rightarrow> created_resolver" where
  "generateUpdate_mysql h db tableName table setArgs filterArgs =
     \<lparr>cr_name = generateUpdate_mysql_name h tableName,
      cr_resolver = UpdateResolver (generateUpdate_mysql_resolver h db tableName table),
      cr_args = generateUpdate_args setArgs filterArgs\<rparr>"

definition generateDelete_mysql ::
  "helpers \<Rightarrow> db \<Rightarrow> string \<Rightarrow> table option \<Rightarrow> gql_type \<Rightarrow> created_resolver" where
  "generateDelete_mysql h db tableName table filterArgs =
     \<lparr>cr_name = generateDelete_mysql_name h tableName,
      cr_resolver = DeleteResolver (generateDelete_mysql_resolver h db tableName table),
      cr_args = generateDelete_args filterArgs\<rparr>"

definition generateSelectArray_sqlite ::
  "helpers \<Rightarrow> db \<Rightarrow> string \<Rightarrow> (string \<times> table) list \<Rightarrow> relation_map
    \<Rightarrow> gql_type \<Rightarrow> gql_type \<Rightarrow> created_resolver" where
  "generateSelectArray_sqlite h db tableName tables relationMap orderArgs filterArgs =
     \<lparr>cr_name = generateSelectArray_sqlite_name h tableName,
      cr_resolver = SelectResolver (generateSelectArray_sqlite_resolver h db tableName tables relationMap),
      cr_args = generateSelectArray_sqlite_args orderArgs filterArgs\<rparr>"

definition generateSelectSingle_sqlite ::
  "helpers \<Rightarrow> db \<Rightarrow> string \<Rightarrow> (string \<times> table) list \<Rightarrow> relation_map
    \<Rightarrow> gql_type \<Rightarrow> gql_type \<Rightarrow> created_resolver" where
  "generateSelectSingle_sqlite h db tableName tables relationMap orderArgs filterArgs =
     \<lparr>cr_name = generateSelectSingle_sqlite_name h tableName,
      cr_resolver = SelectResolver (generateSelectSingle_sqlite_resolver h db tableName tables relationMap),
      cr_args = generateSelectSingle_sqlite_args orderArgs filterArgs\<rparr>"

definition generateInsertArray_sqlite ::
  "helpers \<Rightarrow> db \<Rightarrow> string \<Rightarrow> table option \<Rightarrow> gql_type \<Rightarrow> created_resolver" where
  "generateInsertArray_sqlite h db tableName table baseType =
     \<lparr>cr_name = generateInsertArray_sqlite_name h tableName,
      cr_resolver = InsertArrayResolver (generateInsertArray_sqlite_resolver h db tableName table),
      cr_args = generateInsertArray_args baseType\<rparr>"

definition generateInsertSingle_sqlite ::
  "helpers \<Rightarrow> db \<Rightarrow> string \<Rightarrow> table option \<Rightarrow> gql_type \<Rightarrow> created_resolver" where
  "generateInsertSingle_sqlite h db tableName table baseType =
     \<lparr>cr_name = generateInsertSingle_sqlite_name h tableName,
      cr_resolver = InsertSingleResolver (generateInsertSingle_sqlite_resolver h db tableName table),
      cr_args = generateInsertSingle_args baseType\<rparr>"

definition generateUpdate_sqlite ::
  "helpers \<Rightarrow> db \<Rightarrow> string \<Rightarrow> table option \<Rightarrow> gql_type \<Rightarrow> gql_type \<Rightarrow> created_resolver" where
  "generateUpdate_sqlite h db tableName table setArgs filterArgs =
     \<lparr>cr_name = generateUpdate_sqlite_name h tableName,
      cr_resolver = UpdateResolver (generateUpdate_sqlite_resolver h db tableName table),
      cr_args = generateUpdate_args setArgs filterArgs\<rparr>"

definition generateDelete_sqlite ::
  "helpers \<Rightarrow> db \<Rightarrow> string \<Rightarrow> table option \<Rightarrow> gql_type \<Rightarrow> created_resolver" where
  "generateDelete_sqlite h db tableName table filterArgs =
     \<lparr>cr_name = generateDelete_sqlite_name h tableName,
      cr_resolver = DeleteResolver (generateDelete_sqlite_resolver h db tableName table),
      cr_args = generateDelete_args filterArgs\<rparr>"

text \<open>
  The Postgres select builders look the table up in \<^verbatim>\<open>db.query\<close> when they are called,
  and throw when the lookup yields \<^verbatim>\<open>undefined\<close> (lines 44-50 and 190-196); the resolver
  calls \<^verbatim>\<open>findMany\<close> or \<^verbatim>\<open>findFirst\<close> on what the lookup found.
\<close>

definition generateSelectArray_pg ::
  "vanilla_helpers \<Rightarrow> db \<Rightarrow> string \<Rightarrow> table option \<Rightarrow> (string \<times> relation) list option
    \<Rightarrow> gql_type \<Rightarrow> gql_type \<Rightarrow> (string \<times> gql_type) list \<Rightarrow> (string \<times> gql_type) list
    \<Rightarrow> thrown + created_resolver" where
  "generateSelectArray_pg h db tableName table relations orderArgs filterArgs
       relationsOrderArgs relationsFilterArgs =
     (let queryName = generateSelectArray_pg_name h tableName
      in
      if query_at db tableName = Missing then Inl (Error (table_not_found tableName))
      else
        Inr \<lparr>cr_name = queryName,
             cr_resolver =
               SelectResolverPg (generateSelectArray_pg_resolver h db tableName table relations),
             cr_args =
               generateSelectArray_pg_args
                 (relationArgs queryName relations relationsOrderArgs relationsFilterArgs)
                 orderArgs filterArgs\<rparr>)"

definition generateSelectSingle_pg ::
  "vanilla_helpers \<Rightarrow> db \<Rightarrow> string \<Rightarrow> table option \<Rightarrow> (string \<times> relation) list option
    \<Rightarrow> gql_type \<Rightarrow> gql_type \<Rightarrow> (string \<times> gql_type) list \<Rightarrow> (string \<times> gql_type) list
    \<Rightarrow> thrown + created_resolver" where
  "generateSelectSingle_pg h db tableName table relations orderArgs filterArgs
       relationsOrderArgs relationsFilterArgs =
     (let queryName = generateSelectSingle_pg_name h tableName
      in
      if query_at db tableName = Missing then Inl (Error (table_not_found tableName))
      else
        Inr \<lparr>cr_name = queryName,
             cr_resolver =
               SelectResolverPg (generateSelectSingle_pg_resolver h db tableName table relations),
             cr_args =
               generateSelectSingle_pg_args
                 (relationArgs queryName relations relationsOrderArgs relationsFilterArgs)
                 orderArgs filterArgs\<rparr>)"

definition generateInsertArray_pg ::
  "vanilla_helpers \<Rightarrow> db \<Rightarrow> string \<Rightarrow> table option \<Rightarrow> gql_type \<Rightarrow> created_resolver" where
  "generateInsertArray_pg h db tableName table baseType =
     \<lparr>cr_name = generateInsertArray_pg_name h tableName,
      cr_resolver = InsertArrayResolver (generateInsertArray_pg_resolver h db tableName table),
      cr_args = generateInsertArray_args baseType\<rparr>"

definition generateInsertSingle_pg ::
  "vanilla_helpers \<Rightarrow> db \<Rightarrow> string \<Rightarrow> table option \<Rightarrow> gql_type \<Rightarrow> created_resolver" where
  "generateInsertSingle_pg h db tableName table baseType =
     \<lparr>cr_name = generateInsertSingle_pg_name h tableName,
      cr_resolver = InsertSingleResolver (generateInsertSingle_pg_resolver h db tableName table),
      cr_args = generateInsertSingle_args baseType\<rparr>"

definition generateUpdate_pg ::
  "vanilla_helpers \<Rightarrow> db \<Rightarrow> string \<Rightarrow> table option \<Rightarrow> gql_type \<Rightarrow> gql_type \<Rightarrow> created_resolver" where
  "generateUpdate_pg h db tableName table setArgs filterArgs =
     \<lparr>cr_name = generateUpdate_pg_name h tableName,
      cr_resolver = UpdateResolver (generateUpdate_pg_resolver h db tableName table),
      cr_args = generateUpdate_args setArgs filterArgs\<rparr>"

definition generateDelete_pg ::
  "vanilla_helpers \<Rightarrow> db \<Rightarrow> string \<Rightarrow> table option \<Rightarrow> gql_type \<Rightarrow> created_resolver" where
  "generateDelete_pg h db tableName table filterArgs =
     \<lparr>cr_name = generateDelete_pg_name h tableName,
      cr_resolver = DeleteResolver (generateDelete_pg_resolver h db tableName table),
      cr_args = generateDelete_args filterArgs\<rparr>"

subsection \<open>The schema and the generated entities\<close>

text \<open>
  A schema maps identifiers to tables of the builder's dialect, to relations
  declarations or to anything else. A relations declaration is the table it belongs to
  (\<^verbatim>\<open>value.table\<close>) and the relations its \<^verbatim>\<open>config\<close> callback returns.
\<close>

datatype schema_value =
    TableValue table
  | RelationsValue table "(string \<times> relation) list"
  | OtherValue

fun tableEntry :: "string \<times> schema_value \<Rightarrow> (string \<times> table) option" where
  "tableEntry (key, TableValue t) = Some (key, t)"
| "tableEntry (key, v) = None"

fun relationsEntry ::
  "string \<times> schema_value \<Rightarrow> (string \<times> table \<times> (string \<times> relation) list) option" where
  "relationsEntry (key, RelationsValue t config) = Some (key, t, config)"
| "relationsEntry (key, v) = None"

text \<open>\<^verbatim>\<open>schema[tableName] as Table\<close>\<close>

fun as_table :: "schema_value option \<Rightarrow> table option" where
  "as_table (Some (TableValue t)) = Some t"
| "as_table v = None"

text \<open>
  \<^verbatim>\<open>tableEntries.find(([tableName, tableValue]) => tableValue === t)![0]\<close>: when no entry
  is that table, \<^verbatim>\<open>find\<close> returns \<^verbatim>\<open>undefined\<close> and reading its index 0 raises a TypeError.
\<close>

definition tableNameOf :: "(string \<times> table) list \<Rightarrow> table \<Rightarrow> thrown + string" where
  "tableNameOf tableEntries t =
     (case find (\<lambda>(tableName, tableValue). tableValue = t) tableEntries of
        None \<Rightarrow> Inl (TypeError ''Cannot read properties of undefined (reading 0)'')
      | Some (tableName, tableValue) \<Rightarrow> Inr tableName)"

text \<open>\<^verbatim>\<open>xs.map(f)\<close> where \<open>f\<close> may throw, and a \<^verbatim>\<open>for\<close> loop whose body may throw.\<close>

fun mapE :: "('a \<Rightarrow> thrown + 'b) \<Rightarrow> 'a list \<Rightarrow> thrown + 'b list" where
  "mapE f [] = Inr []"
| "mapE f (x # xs) = bindE (f x) (\<lambda>y. bindE (mapE f xs) (\<lambda>ys. Inr (y # ys)))"

fun foldE :: "('s \<Rightarrow> 'a \<Rightarrow> thrown + 's) \<Rightarrow> 's \<Rightarrow> 'a list \<Rightarrow> thrown + 's" where
  "foldE f acc [] = Inr acc"
| "foldE f acc (x # xs) = bindE (f acc x) (\<lambda>acc'. foldE f acc' xs)"

record field_config =
  fc_type :: gql_type
  fc_args :: arg_map
  fc_resolve :: resolve_fn

record generated_entities =
  queries :: "(string \<times> field_config) list"
  mutations :: "(string \<times> field_config) list"
  inputs :: "(string \<times> gql_type) list"
  types :: "(string \<times> gql_type) list"

text \<open>\<^verbatim>\<open>m[g.name] = { type: t, args: g.args, resolve: g.resolver }\<close>\<close>

definition field_of :: "created_resolver \<Rightarrow> gql_type \<Rightarrow> field_config" where
  "field_of g t = \<lparr>fc_type = t, fc_args = cr_args g, fc_resolve = cr_resolver g\<rparr>"

definition assign ::
  "(string \<times> field_config) list \<Rightarrow> created_resolver \<Rightarrow> gql_type \<Rightarrow> (string \<times> field_config) list" where
  "assign m g t = obj_set m (cr_name g) (field_of g t)"

text \<open>\<^verbatim>\<open>[...].forEach((e) => (inputs[e.name] = e))\<close>\<close>

definition assign_types :: "(string \<times> gql_type) list \<Rightarrow> gql_type list \<Rightarrow> (string \<times> gql_type) list" where
  "assign_types m ts = foldl (\<lambda>acc e. obj_set acc (type_name e) e) m ts"

text \<open>
  \<^verbatim>\<open>rawRelations\<close> and \<^verbatim>\<open>namedRelations\<close> of the MySQL and SQLite builders (lines 371-400
  and 914-943).
\<close>

definition rawRelations ::
  "(string \<times> table) list \<Rightarrow> (string \<times> schema_value) list
    \<Rightarrow> thrown + (string \<times> (string \<times> relation) list) list" where
  "rawRelations tableEntries schemaEntries =
     mapE (\<lambda>(key, t, config). bindE (tableNameOf tableEntries t) (\<lambda>tableName. Inr (tableName, config)))
       (List.map_filter relationsEntry schemaEntries)"

definition namedRelations ::
  "(string \<times> table) list \<Rightarrow> (string \<times> (string \<times> relation) list) list \<Rightarrow> thrown + relation_map" where
  "namedRelations tableEntries raw =
     bindE (mapE (\<lambda>(relName, config).
              bindE (mapE (\<lambda>(innerRelName, innerRelValue).
                       bindE (tableNameOf tableEntries (referencedTable innerRelValue)) (\<lambda>target.
                         Inr (innerRelName,
                              \<lparr>nr_relation = innerRelValue, targetTableName = target\<rparr>)))
                     config)
                (\<lambda>namedConfig. Inr (relName, fromEntries namedConfig)))
            raw)
       (\<lambda>entries. Inr (fromEntries entries))"

definition no_tables_detected :: string where
  "no_tables_detected =
     ''Drizzle-GraphQL Error: No tables detected in Drizzle-ORM'' @ [CHR 0x27]
       @ ''s database instance. Did you forget to pass schema to drizzle constructor?''"

definition mutationReturnType :: gql_type where
  "mutationReturnType =
     GraphQLObjectType ''MutationReturn'' [(''isSuccess'', GraphQLNonNull GraphQLBoolean)]"

text \<open>One round of the loop over the tables' generated types, MySQL (lines 425-488).\<close>

definition schemaData_step_mysql ::
  "helpers \<Rightarrow> db \<Rightarrow> (string \<times> schema_value) list \<Rightarrow> (string \<times> table) list \<Rightarrow> relation_map
    \<Rightarrow> generated_entities \<Rightarrow> string \<times> table_types \<Rightarrow> generated_entities" where
  "schemaData_step_mysql h db schema tables namedRels acc entry =
     (case entry of (tableName, tableTypes) \<Rightarrow>
      (let table = as_table (map_of schema tableName);
           selectArrGenerated = generateSelectArray_mysql h db tableName tables namedRels
                                  (tableOrder tableTypes) (tableFilters tableTypes);
           selectSingleGenerated = generateSelectSingle_mysql h db tableName tables namedRels
                                     (tableOrder tableTypes) (tableFilters tableTypes);
           insertArrGenerated = generateInsertArray_mysql h db tableName table (insertInput tableTypes);
           insertSingleGenerated = generateInsertSingle_mysql h db tableName table (insertInput tableTypes);
           updateGenerated = generateUpdate_mysql h db tableName table
                               (updateInput tableTypes) (tableFilters tableTypes);
           deleteGenerated = generateDelete_mysql h db tableName table (tableFilters tableTypes);
           q1 = assign (queries acc) selectArrGenerated (selectArrOutput tableTypes);
           q2 = assign q1 selectSingleGenerated (selectSingleOutput tableTypes);
           m1 = assign (mutations acc) insertArrGenerated mutationReturnType;
           m2 = assign m1 insertSingleGenerated mutationReturnType;
           m3 = assign m2 updateGenerated mutationReturnType;
           m4 = assign m3 deleteGenerated mutationReturnType
       in \<lparr>queries = q2,
           mutations = m4,
           inputs = assign_types (inputs acc)
                      [insertInput tableTypes, updateInput tableTypes,
                       tableFilters tableTypes, tableOrder tableTypes],
           types = assign_types (types acc) [selectSingleOutput tableTypes]\<rparr>))"

definition generateSchemaData_mysql ::
  "helpers \<Rightarrow> db \<Rightarrow> (string \<times> schema_value) list \<Rightarrow> int option \<Rightarrow> thrown + generated_entities" where
  "generateSchemaData_mysql h db schema relationsDepthLimit =
     (let schemaEntries = schema;
          tableEntries = List.map_filter tableEntry schemaEntries;
          tables = fromEntries tableEntries
      in
      if length tableEntries = 0 then Inl (Error no_tables_detected)
      else
      bindE (rawRelations tableEntries schemaEntries) (\<lambda>raw.
      bindE (namedRelations tableEntries raw) (\<lambda>namedRels.
      bindE (mapE (\<lambda>(tableName, table).
               bindE (generateTableTypes h tableName tables namedRels False relationsDepthLimit)
                 (\<lambda>tt. Inr (tableName, tt)))
             tables) (\<lambda>typeEntries.
      let gqlSchemaTypes = fromEntries typeEntries
      in Inr (foldl (schemaData_step_mysql h db schema tables namedRels)
                \<lparr>queries = [], mutations = [], inputs = [],
                 types = [(''MutationReturn'', mutationReturnType)]\<rparr>
                gqlSchemaTypes)))))"

text \<open>One round of the loop, SQLite (lines 957-1021).\<close>

definition schemaData_step_sqlite ::
  "helpers \<Rightarrow> db \<Rightarrow> (string \<times> schema_value) list \<Rightarrow> (string \<times> table) list \<Rightarrow> relation_map
    \<Rightarrow> generated_entities \<Rightarrow> string \<times> table_types \<Rightarrow> generated_entities" where
  "schemaData_step_sqlite h db schema tables namedRels acc entry =
     (case entry of (tableName, tableTypes) \<Rightarrow>
      (let table = as_table (map_of schema tableName);
           selectArrGenerated = generateSelectArray_sqlite h db tableName tables namedRels
                                  (tableOrder tableTypes) (tableFilters tableTypes);
           selectSingleGenerated = generateSelectSingle_sqlite h db tableName tables namedRels
                                     (tableOrder tableTypes) (tableFilters tableTypes);
           insertArrGenerated = generateInsertArray_sqlite h db tableName table (insertInput tableTypes);
           insertSingleGenerated = generateInsertSingle_sqlite h db tableName table (insertInput tableTypes);
           updateGenerated = generateUpdate_sqlite h db tableName table
                               (updateInput tableTypes) (tableFilters tableTypes);
           deleteGenerated = generateDelete_sqlite h db tableName table (tableFilters tableTypes);
           q1 = assign (queries acc) selectArrGenerated (selectArrOutput tableTypes);
           q2 = assign q1 selectSingleGenerated (selectSingleOutput tableTypes);
           m1 = assign (mutations acc) insertArrGenerated (arrTableItemOutput tableTypes);
           m2 = assign m1 insertSingleGenerated (singleTableItemOutput tableTypes);
           m3 = assign m2 updateGenerated (arrTableItemOutput tableTypes);
           m4 = assign m3 deleteGenerated (arrTableItemOutput tableTypes)
       in \<lparr>queries = q2,
           mutations = m4,
           inputs = assign_types (inputs acc)
                      [insertInput tableTypes, updateInput tableTypes,
                       tableFilters tableTypes, tableOrder tableTypes],
           types = assign_types (types acc)
                     [selectSingleOutput tableTypes, singleTableItemOutput tableTypes]\<rparr>))"

definition generateSchemaData_sqlite ::
  "helpers \<Rightarrow> db \<Rightarrow> (string \<times> schema_value) list \<Rightarrow> int option \<Rightarrow> thrown + generated_entities" where
  "generateSchemaData_sqlite h db schema relationsDepthLimit =
     (let schemaEntries = schema;
          tableEntries = List.map_filter tableEntry schemaEntries;
          tables = fromEntries tableEntries
      in
      if length tableEntries = 0 then Inl (Error no_tables_detected)
      else
      bindE (rawRelations tableEntries schemaEntries) (\<lambda>raw.
      bindE (namedRelations tableEntries raw) (\<lambda>namedRels.
      bindE (mapE (\<lambda>(tableName, table).
               bindE (generateTableTypes h tableName tables namedRels True relationsDepthLimit)
                 (\<lambda>tt. Inr (tableName, tt)))
             tables) (\<lambda>typeEntries.
      let gqlSchemaTypes = fromEntries typeEntries
      in Inr (foldl (schemaData_step_sqlite h db schema tables namedRels)
                \<lparr>queries = [], mutations = [], inputs = [], types = []\<rparr>
                gqlSchemaTypes)))))"

text \<open>The Postgres builder (lines 463-574).\<close>

definition unable_to_extract_tables :: string where
  "unable_to_extract_tables =
     ''Unable to extract tables from drizzle instance.'' @ [CHR 0x0A]
       @ ''Did you forget to pass tables to graphql schema constructor?''"

definition relations_pg ::
  "(string \<times> table) list \<Rightarrow> (string \<times> schema_value) list
    \<Rightarrow> thrown + (string \<times> (string \<times> relation) list) list" where
  "relations_pg tables schemaEntries =
     bindE (mapE (\<lambda>(key, t, config). bindE (tableNameOf tables t) (\<lambda>tableName. Inr (tableName, config)))
              (List.map_filter relationsEntry schemaEntries))
       (\<lambda>entries. Inr (fromEntries entries))"

definition schemaData_step_pg ::
  "vanilla_helpers \<Rightarrow> db \<Rightarrow> (string \<times> schema_value) list
    \<Rightarrow> (string \<times> (string \<times> relation) list) list
    \<Rightarrow> generated_entities \<Rightarrow> string \<times> table_types_pg \<Rightarrow> thrown + generated_entities" where
  "schemaData_step_pg h db schema relations acc entry =
     (case entry of (tableName, tableTypes) \<Rightarrow>
      (let table = as_table (map_of schema tableName)
       in
       bindE (generateSelectArray_pg h db tableName table (map_of relations tableName)
                (tableOrder tableTypes) (tableFilters tableTypes)
                (relationOrder tableTypes) (relationFilters tableTypes)) (\<lambda>selectArrGenerated.
       bindE (generateSelectSingle_pg h db tableName table (map_of relations tableName)
                (tableOrder tableTypes) (tableFilters tableTypes)
                (relationOrder tableTypes) (relationFilters tableTypes)) (\<lambda>selectSingleGenerated.
       let insertArrGenerated = generateInsertArray_pg h db tableName table (insertInput tableTypes);
           insertSingleGenerated = generateInsertSingle_pg h db tableName table (insertInput tableTypes);
           updateGenerated = generateUpdate_pg h db tableName table
                               (updateInput tableTypes) (tableFilters tableTypes);
           deleteGenerated = generateDelete_pg h db tableName table (tableFilters tableTypes);
           q1 = assign (queries acc) selectArrGenerated (selectArrOutput tableTypes);
           q2 = assign q1 selectSingleGenerated (selectSingleOutput tableTypes);
           m1 = assign (mutations acc) insertArrGenerated (arrTableItemOutput tableTypes);
           m2 = assign m1 insertSingleGenerated (singleTableItemOutput tableTypes);
           m3 = assign m2 updateGenerated (arrTableItemOutput tableTypes);
           m4 = assign m3 deleteGenerated (arrTableItemOutput tableTypes)
       in Inr \<lparr>queries = q2,
               mutations = m4,
               inputs = assign_types (inputs acc)
                          [insertInput tableTypes, updateInput tableTypes,
                           tableFilters tableTypes, tableOrder tableTypes],
               types = assign_types (types acc) [selectSingleOutput tableTypes]\<rparr>))))"

definition generateSchemaData_pg ::
  "vanilla_helpers \<Rightarrow> db \<Rightarrow> (string \<times> schema_value) list \<Rightarrow> thrown + generated_entities" where
  "generateSchemaData_pg h db schema =
     (let schemaEntries = schema;
          tables = fromEntries (List.map_filter tableEntry schemaEntries)
      in
      if length (Object_keys tables) = 0 then Inl (Error unable_to_extract_tables)
      else
      bindE (relations_pg tables schemaEntries) (\<lambda>relations.
      bindE (mapE (\<lambda>(tableName, table).
               bindE (generateTableTypes_pg h tableName (Some table) True (map_of relations tableName))
                 (\<lambda>tt. Inr (tableName, tt)))
             tables) (\<lambda>typeEntries.
      let gqlSchemaTypes = fromEntries typeEntries
      in foldE (schemaData_step_pg h db schema relations)
           \<lparr>queries = [], mutations = [], inputs = [], types = []\<rparr>
           gqlSchemaTypes)))"

section \<open>A concrete instance: helpers, executor and schema\<close>

text \<open>
  The properties below hold for every implementation of the imported helpers and every
  executor. To run the builders on concrete inputs, this section fixes one instance:
  small helpers of the declared signatures, a table \<^verbatim>\<open>users\<close> that holds the row with
  \<^verbatim>\<open>id\<close> 1, and a table \<^verbatim>\<open>posts\<close>.
\<close>

definition upper_char :: "char \<Rightarrow> char" where
  "upper_char c =
     (case map_of (zip ''abcdefghijklmnopqrstuvwxyz'' ''ABCDEFGHIJKLMNOPQRSTUVWXYZ'') c of
        Some u \<Rightarrow> u | None \<Rightarrow> c)"

definition lower_char :: "char \<Rightarrow> char" where
  "lower_char c =
     (case map_of (zip ''ABCDEFGHIJKLMNOPQRSTUVWXYZ'' ''abcdefghijklmnopqrstuvwxyz'') c of
        Some l \<Rightarrow> l | None \<Rightarrow> c)"

fun first_upper :: "string \<Rightarrow> string" where
  "first_upper [] = []"
| "first_upper (c # cs) = upper_char c # cs"

fun first_lower :: "string \<Rightarrow> string" where
  "first_lower [] = []"
| "first_lower (c # cs) = lower_char c # cs"

definition users_table :: table where
  "users_table = Table 1 [''id'', ''name'']"

definition posts_table :: table where
  "posts_table = Table 2 [''id'', ''userId'', ''title'']"

definition user_row :: row where
  "user_row = [(''id'', VInt 1), (''name'', VStr ''A'')]"

fun field_names :: "selection list \<Rightarrow> string list" where
  "field_names [] = []"
| "field_names (Field n ss # rest) = n # field_names rest"
| "field_names (s # rest) = field_names rest"

definition known_columns :: "table option \<Rightarrow> string list \<Rightarrow> bool" where
  "known_columns t ks =
     (case t of None \<Rightarrow> False | Some tb \<Rightarrow> list_all (\<lambda>k. k \<in> set (table_columns tb)) ks)"

definition sample_tree :: resolve_tree where
  "sample_tree =
     ResolveTree ''users'' []
       [(''UsersSelectItem'', [(''id'', ResolveTree ''id'' [] []), (''name'', ResolveTree ''name'' [] [])]),
        (''UsersItem'', [(''id'', ResolveTree ''id'' [] [])])]"

definition sample_table_types :: "string \<Rightarrow> table_types" where
  "sample_table_types tableName =
     \<lparr>insertInput = GraphQLInputObjectType (first_upper tableName @ ''InsertInput'') [],
      updateInput = GraphQLInputObjectType (first_upper tableName @ ''UpdateInput'') [],
      tableFilters = GraphQLInputObjectType (first_upper tableName @ ''Filters'') [],
      tableOrder = GraphQLInputObjectType (first_upper tableName @ ''OrderBy'') [],
      selectSingleOutput = GraphQLObjectType (first_upper tableName @ ''SelectItem'') [],
      selectArrOutput =
        GraphQLNonNull (GraphQLList (GraphQLNonNull
          (GraphQLObjectType (first_upper tableName @ ''SelectItem'') []))),
      singleTableItemOutput = GraphQLObjectType (first_upper tableName @ ''Item'') [],
      arrTableItemOutput =
        GraphQLNonNull (GraphQLList (GraphQLNonNull
          (GraphQLObjectType (first_upper tableName @ ''Item'') [])))\<rparr>"

definition sample_helpers :: helpers where
  "sample_helpers =
     \<lparr>capitalize = first_upper,
      uncapitalize = first_lower,
      parseResolveInfo = (\<lambda>info. Inr sample_tree),
      databaseOfContext = (\<lambda>db context. Inr (case context_db context of None \<Rightarrow> db | Some d \<Rightarrow> d)),
      extractFilters = (\<lambda>t tableName w.
        if known_columns t (map fst w) then Inr (concat (map fst w))
        else Inl (GraphQLError ''Unknown filter field'')),
      extractOrderBy = (\<lambda>t ob.
        if known_columns t (map fst ob) then Inr (map fst ob)
        else Inl (GraphQLError ''Unknown order field'')),
      extractRelationsParams = (\<lambda>relationMap tables tableName tree typeName. Inr None),
      extractSelectedColumnsFromTree = (\<lambda>fields t.
        case fields of
          None \<Rightarrow> Inl (TypeError ''Cannot convert undefined or null to object'')
        | Some fs \<Rightarrow> Inr (map fst fs)),
      extractSelectedColumnsFromTreeSQLFormat = (\<lambda>fields t.
        case fields of
          None \<Rightarrow> Inl (TypeError ''Cannot convert undefined or null to object'')
        | Some fs \<Rightarrow> Inr (map fst fs)),
      remapFromGraphQLArrayInput = (\<lambda>vs t. Inr vs),
      remapFromGraphQLSingleInput = (\<lambda>v t. Inr v),
      remapToGraphQLArrayOutput = (\<lambda>rows tableName t rels. Inr (VList (map VObj rows))),
      remapToGraphQLSingleOutput = (\<lambda>r tableName t rels. Inr (VObj r)),
      generateTableTypes = (\<lambda>tableName tables rels withReturning depth.
        Inr (sample_table_types tableName))\<rparr>"

definition sample_vanilla_helpers :: vanilla_helpers where
  "sample_vanilla_helpers =
     \<lparr>camelize = first_lower,
      pascalize = first_upper,
      extractFilters_pg = (\<lambda>t tableName w.
        if known_columns t (map fst w) then Inr (concat (map fst w))
        else Inl (GraphQLError ''Unknown filter field'')),
      extractOrderBy_pg = (\<lambda>t ob.
        if known_columns t (map fst ob) then Inr (map fst ob)
        else Inl (GraphQLError ''Unknown order field'')),
      extractSelectedColumnsFromNode = (\<lambda>node t.
        case node of
          None \<Rightarrow> Inl (TypeError ''Cannot read properties of undefined (reading selectionSet)'')
        | Some n \<Rightarrow>
            (case selectionSet n of
               None \<Rightarrow> Inr []
             | Some ss \<Rightarrow> Inr (filter (\<lambda>c. known_columns t [c]) (field_names ss)))),
      extractSelectedColumnsSQLFormat = (\<lambda>info queryName t.
        case find (is_field_named queryName) (operation_selections info) of
          None \<Rightarrow> Inl (TypeError ''Cannot read properties of undefined (reading selectionSet)'')
        | Some n \<Rightarrow>
            (case selectionSet n of
               None \<Rightarrow> Inr []
             | Some ss \<Rightarrow> Inr (filter (\<lambda>c. known_columns t [c]) (field_names ss)))),
      remapFromGraphQLArrayInput_pg = (\<lambda>vs t. Inr vs),
      remapFromGraphQLSingleInput_pg = (\<lambda>v t. Inr v),
      remapToGraphQLArrayOutput_pg = (\<lambda>rows rels. Inr (VList (map VObj rows))),
      remapToGraphQLSingleOutput_pg = (\<lambda>r rels. Inr (VObj r)),
      generateTableTypes_pg = (\<lambda>tableName t withReturning rels.
        Inr (table_types.extend (sample_table_types tableName)
               \<lparr>relationFilters =
                  map (\<lambda>(relName, r). (relName, GraphQLInputObjectType (relName @ ''Filters'') []))
                    (case rels of None \<Rightarrow> [] | Some rs \<Rightarrow> rs),
                relationOrder =
                  map (\<lambda>(relName, r). (relName, GraphQLInputObjectType (relName @ ''OrderBy'') []))
                    (case rels of None \<Rightarrow> [] | Some rs \<Rightarrow> rs)\<rparr>))\<rparr>"

text \<open>
  The sample executor: the table holds the row with \<^verbatim>\<open>id\<close> 1. An insert of a row with
  that \<^verbatim>\<open>id\<close> conflicts: with \<^verbatim>\<open>onConflictDoNothing\<close> the row is skipped, without it the
  statement is rejected. \<^verbatim>\<open>findFirst\<close> finds the row unless a filter is given.
\<close>

definition conflicts :: "row \<Rightarrow> bool" where
  "conflicts r = (map_of r ''id'' = Some (VInt 1))"

fun rows_of :: "insert_values \<Rightarrow> row list" where
  "rows_of (ValuesOne r) = [r]"
| "rows_of (ValuesMany rs) = rs"

fun sample_execute :: "statement \<Rightarrow> thrown + row list" where
  "sample_execute (Insert t vs ret skip) =
     (if skip then Inr (filter (\<lambda>r. \<not> conflicts r) (rows_of vs))
      else if list_ex conflicts (rows_of vs) then Inl (Error ''Duplicate entry'')
      else Inr (rows_of vs))"
| "sample_execute (Update t v w ret) = Inr [user_row]"
| "sample_execute (Delete t w ret) = Inr [user_row]"

definition sample_db :: db where
  "sample_db =
     \<lparr>db_query = [''users'', ''posts''],
      findMany = (\<lambda>tableName config. Inr [user_row]),
      findFirst = (\<lambda>tableName config.
        if cfg_where config = None then Inr (Some user_row) else Inr None),
      execute = sample_execute\<rparr>"

text \<open>An executor that rejects every query, and an instance built without a schema.\<close>

definition rejecting_db :: db where
  "rejecting_db =
     \<lparr>db_query = [''users'', ''posts''],
      findMany = (\<lambda>tableName config. Inl (Error ''connection lost'')),
      findFirst = (\<lambda>tableName config. Inl (Error ''connection lost'')),
      execute = (\<lambda>stmt. Inl (Error ''connection lost''))\<rparr>"


definition sample_info :: resolve_info where
  "sample_info = Info [Field ''users'' (Some [Field ''id'' None, Field ''name'' None])]"







definition two_users :: insert_array_args where
  "two_users =
     \<lparr>values_array = [[(''id'', VInt 1), (''name'', VStr ''A'')],
                      [(''id'', VInt 2), (''name'', VStr ''B'')]]\<rparr>"

definition known_user :: insert_single_args where
  "known_user = \<lparr>values_single = [(''id'', VInt 1), (''name'', VStr ''A'')]\<rparr>"

definition insert_info :: resolve_info where
  "insert_info =
     Info [Field ''insertIntoUsers'' (Some [Field ''id'' None]),
           Field ''insertIntoUsersSingle'' (Some [Field ''id'' None])]"

section \<open>What a run does to the executor trace\<close>

text \<open>
  \<open>awaits_once rethrown m tr\<close>: started on the trace \<open>tr\<close>, the computation \<open>m\<close> awaits no
  query or exactly one; and when the executor rejected that query with \<open>e\<close>, the
  computation fails with \<open>rethrown e\<close>.
\<close>

definition awaits_once :: "(thrown \<Rightarrow> thrown) \<Rightarrow> 'a io \<Rightarrow> trace \<Rightarrow> bool" where
  "awaits_once rethrown m tr =
     (case m tr of (res, tr') \<Rightarrow>
        tr' = tr \<or>
        (tr' \<noteq> [] \<and> butlast tr' = tr \<and>
         (case snd (last tr') of Rejected e \<Rightarrow> res = Inl (rethrown e) | a \<Rightarrow> True)))"

text \<open>Arguments and an update used to run the resolvers against the rejecting executor.\<close>

definition rename_user :: update_args where
  "rename_user = \<lparr>upd_arg_where = None, upd_arg_set = [(''name'', VStr ''B'')]\<rparr>"

definition delete_info :: resolve_info where
  "delete_info = Info [Field ''deleteFromUsers'' (Some [Field ''id'' None])]"








definition colliding_schema :: "(string \<times> schema_value) list" where
  "colliding_schema =
     [(''a'', TableValue users_table),
      (''aSingle'', TableValue posts_table)]"


definition colliding_db :: db where
  "colliding_db = sample_db\<lparr>db_query := [''a'', ''aSingle'']\<rparr>"

definition no_entities :: generated_entities where
  "no_entities = \<lparr>queries = [], mutations = [], inputs = [], types = []\<rparr>"

definition a_types_pg :: table_types_pg where
  "a_types_pg =
     table_types.extend (sample_table_types ''a'') \<lparr>relationFilters = [], relationOrder = []\<rparr>"

section \<open>Properties of the resolvers\<close>

lemmas run_defs = returnIO_def throwIO_def bindIO_def call_def await_def try_catch_def
  when_given_def

lemmas io_defs = run_defs optionally_def bindE_def

lemma optionally_None [simp]: "optionally None f = Inr None"
  by (simp add: optionally_def)

lemma query_at_own [simp]: "tableName \<in> set (db_query d) \<Longrightarrow> query_at d tableName = Builder"
  by (simp add: query_at_def)


text \<open>
  C1. In every builder, an update whose remapped \<^verbatim>\<open>set\<close> has no keys (as the empty field
  map has) fails and leaves the executor trace as it was: no statement is awaited. The
  error is the GraphQLError \<^verbatim>\<open>Unable to update with no values specified!\<close>; the SQLite
  and Postgres resolvers extract the selected columns first, and reach that check once
  the extraction has returned.
\<close>

theorem update_with_empty_set_dispatches_nothing:
  "(remapFromGraphQLSingleInput h (upd_arg_set args) table = Inr input \<and> Object_keys input = [] \<longrightarrow>
      generateUpdate_mysql_resolver h db tableName table args ctx info tr
        = (Inl (GraphQLError ''Unable to update with no values specified!''), tr)
      \<and> (\<exists>e. generateUpdate_sqlite_resolver h db tableName table args ctx info tr = (Inl e, tr))
      \<and> (parseResolveInfo h info = Inr parsedInfo
           \<and> extractSelectedColumnsFromTreeSQLFormat h
               (map_of (fieldsByTypeName parsedInfo) (capitalize h tableName @ ''Item'')) table
               = Inr columns \<longrightarrow>
         generateUpdate_sqlite_resolver h db tableName table args ctx info tr
           = (Inl (GraphQLError ''Unable to update with no values specified!''), tr)))
   \<and> (remapFromGraphQLSingleInput_pg vh (upd_arg_set args) table = Inr input' \<and> Object_keys input' = [] \<longrightarrow>
      (\<exists>e. generateUpdate_pg_resolver vh db tableName table args ctx info' tr = (Inl e, tr))
      \<and> (extractSelectedColumnsSQLFormat vh info' (generateUpdate_pg_name vh tableName) table
            = Inr columns' \<longrightarrow>
         generateUpdate_pg_resolver vh db tableName table args ctx info' tr
           = (Inl (GraphQLError ''Unable to update with no values specified!''), tr)))"
  by (simp add: generateUpdate_mysql_resolver_def generateUpdate_sqlite_resolver_def
      generateUpdate_pg_resolver_def io_defs Let_def split: sum.splits)

theorem update_with_empty_set_witness:
  "generateUpdate_mysql_resolver sample_helpers sample_db ''users'' (Some users_table)
      \<lparr>upd_arg_where = None, upd_arg_set = []\<rparr> (Context None) sample_info []
     = (Inl (GraphQLError ''Unable to update with no values specified!''), [])
   \<and> generateUpdate_sqlite_resolver sample_helpers sample_db ''users'' (Some users_table)
      \<lparr>upd_arg_where = None, upd_arg_set = []\<rparr> (Context None) sample_info []
     = (Inl (GraphQLError ''Unable to update with no values specified!''), [])
   \<and> generateUpdate_pg_resolver sample_vanilla_helpers sample_db ''users'' (Some users_table)
      \<lparr>upd_arg_where = None, upd_arg_set = []\<rparr> (Context None)
      (Info [Field ''updateUsers'' (Some [Field ''id'' None])]) []
     = (Inl (GraphQLError ''Unable to update with no values specified!''), [])"
  using update_with_empty_set_dispatches_nothing
    [where h = sample_helpers and args = "\<lparr>upd_arg_where = None, upd_arg_set = []\<rparr>"
       and table = "Some users_table" and input = "[]" and db = sample_db
       and tableName = "''users''" and ctx = "Context None" and info = sample_info
       and tr = "[]" and parsedInfo = sample_tree and columns = "[''id'']"
       and vh = sample_vanilla_helpers and input' = "[]" and columns' = "[''id'']"
       and info' = "Info [Field ''updateUsers'' (Some [Field ''id'' None])]"]
  by (simp add: sample_helpers_def sample_vanilla_helpers_def Object_keys_def sample_tree_def
      generateUpdate_pg_name_def known_columns_def users_table_def upper_char_def lower_char_def)


text \<open>
  C2. In every builder, insert-many with a values list that remaps to the empty list (as
  the empty list does) fails with the GraphQLError \<^verbatim>\<open>No values were provided!\<close> and
  leaves the executor trace as it was: no insert is awaited.
\<close>

theorem insert_many_with_no_values_is_rejected:
  "(remapFromGraphQLArrayInput h (values_array args) table = Inr [] \<longrightarrow>
      generateInsertArray_mysql_resolver h db tableName table args ctx info tr
        = (Inl (GraphQLError ''No values were provided!''), tr)
      \<and> generateInsertArray_sqlite_resolver h db tableName table args ctx info tr
        = (Inl (GraphQLError ''No values were provided!''), tr))
   \<and> (remapFromGraphQLArrayInput_pg vh (values_array args) table = Inr [] \<longrightarrow>
      generateInsertArray_pg_resolver vh db tableName table args ctx info tr
        = (Inl (GraphQLError ''No values were provided!''), tr))"
  by (simp add: generateInsertArray_mysql_resolver_def generateInsertArray_sqlite_resolver_def
      generateInsertArray_pg_resolver_def run_defs Let_def)

theorem insert_many_with_no_values_witness:
  "generateInsertArray_mysql_resolver sample_helpers sample_db ''users'' (Some users_table)
      \<lparr>values_array = []\<rparr> (Context None) sample_info []
     = (Inl (GraphQLError ''No values were provided!''), [])
   \<and> generateInsertArray_sqlite_resolver sample_helpers sample_db ''users'' (Some users_table)
      \<lparr>values_array = []\<rparr> (Context None) sample_info []
     = (Inl (GraphQLError ''No values were provided!''), [])
   \<and> generateInsertArray_pg_resolver sample_vanilla_helpers sample_db ''users'' (Some users_table)
      \<lparr>values_array = []\<rparr> (Context None) sample_info []
     = (Inl (GraphQLError ''No values were provided!''), [])"
  using insert_many_with_no_values_is_rejected
    [where h = sample_helpers and args = "\<lparr>values_array = []\<rparr>"
       and table = "Some users_table" and db = sample_db
       and tableName = "''users''" and ctx = "Context None" and info = sample_info
       and tr = "[]" and vh = sample_vanilla_helpers]
  by (simp add: sample_helpers_def sample_vanilla_helpers_def)






text \<open>
  The selection of the Postgres select-one builder for a table without relations
  (\<^verbatim>\<open>relations\<close> is \<^verbatim>\<open>undefined\<close>), lines 240-253 of \<^verbatim>\<open>pg.ts\<close>.
\<close>

lemma select_single_args_other_builders:
  "map fst (generateSelectSingle_mysql_args orderArgs filterArgs) = [''offset'', ''orderBy'', ''where'']"
  "map fst (generateSelectSingle_sqlite_args orderArgs filterArgs) = [''offset'', ''orderBy'', ''where'']"
  "map fst (generateSelectSingle_pg_args
              (relationArgs queryName (Some rels) relationsOrderArgs relationsFilterArgs)
              orderArgs filterArgs)
     = [''offset'', ''orderBy'', ''where'', ''relations'']"
  by (simp_all add: generateSelectSingle_mysql_args_def generateSelectSingle_sqlite_args_def
      generateSelectSingle_pg_args_def relationArgs_def)

text \<open>
  C5. The claim fails on the Postgres builder: for a table without relations the
  select-one operation declares \<^verbatim>\<open>limit\<close>, exactly the arguments of select-many. (The
  resolver never passes \<^verbatim>\<open>limit\<close> to \<^verbatim>\<open>findFirst\<close>; the branch for tables with relations
  and the other two builders leave it out.)
\<close>

theorem select_single_pg_without_relations_lists_limit:
  "map fst (generateSelectSingle_pg_args
              (relationArgs queryName None relationsOrderArgs relationsFilterArgs)
              orderArgs filterArgs)
     = [''offset'', ''limit'', ''orderBy'', ''where'']"
  by (simp add: generateSelectSingle_pg_args_def relationArgs_def)

lemma insertArray_pg_skips:
  "remapFromGraphQLArrayInput_pg vh (values_array args) table = Inr input \<Longrightarrow> input \<noteq> [] \<Longrightarrow>
   extractSelectedColumnsSQLFormat vh info (generateInsertArray_pg_name vh tableName) table = Inr columns \<Longrightarrow>
   execute db (Insert table (ValuesMany input) (Some columns) True) = Inr rows \<Longrightarrow>
   generateInsertArray_pg_resolver vh db tableName table args ctx info tr
     = (bindE (remapToGraphQLArrayOutput_pg vh rows None) (\<lambda>out. Inr (Some out)),
        tr @ [(Mutation (Insert table (ValuesMany input) (Some columns) True), Rows rows)])"
  by (simp add: generateInsertArray_pg_resolver_def run_defs bindE_def Let_def split: sum.splits)

lemma insertSingle_pg_skips:
  "remapFromGraphQLSingleInput_pg vh (values_single args) table = Inr input \<Longrightarrow>
   extractSelectedColumnsSQLFormat vh info (generateInsertSingle_pg_name vh tableName) table = Inr columns \<Longrightarrow>
   execute db (Insert table (ValuesOne input) (Some columns) True) = Inr [] \<Longrightarrow>
   generateInsertSingle_pg_resolver vh db tableName table args ctx info tr
     = (Inr None, tr @ [(Mutation (Insert table (ValuesOne input) (Some columns) True), Rows [])])"
  by (simp add: generateInsertSingle_pg_resolver_def run_defs Let_def split: sum.splits)

lemma insertArray_sqlite_skips:
  "remapFromGraphQLArrayInput h (values_array args) table = Inr input \<Longrightarrow> input \<noteq> [] \<Longrightarrow>
   parseResolveInfo h info = Inr parsedInfo \<Longrightarrow>
   extractSelectedColumnsFromTreeSQLFormat h
       (map_of (fieldsByTypeName parsedInfo) (capitalize h tableName @ ''Item'')) table = Inr columns \<Longrightarrow>
   execute db (Insert table (ValuesMany input) (Some columns) True) = Inr rows \<Longrightarrow>
   generateInsertArray_sqlite_resolver h db tableName table args ctx info tr
     = ((case remapToGraphQLArrayOutput h rows tableName table None of
           Inl e \<Rightarrow> Inl (caught e) | Inr out \<Rightarrow> Inr (Some out)),
        tr @ [(Mutation (Insert table (ValuesMany input) (Some columns) True), Rows rows)])"
  by (simp add: generateInsertArray_sqlite_resolver_def run_defs Let_def split: sum.splits)

lemma insertSingle_sqlite_skips:
  "remapFromGraphQLSingleInput h (values_single args) table = Inr input \<Longrightarrow>
   parseResolveInfo h info = Inr parsedInfo \<Longrightarrow>
   extractSelectedColumnsFromTreeSQLFormat h
       (map_of (fieldsByTypeName parsedInfo) (capitalize h tableName @ ''Item'')) table = Inr columns \<Longrightarrow>
   databaseOfContext h db ctx = Inr dynamicDb \<Longrightarrow>
   execute dynamicDb (Insert table (ValuesOne input) (Some columns) True) = Inr [] \<Longrightarrow>
   generateInsertSingle_sqlite_resolver h db tableName table args ctx info tr
     = (Inr None, tr @ [(Mutation (Insert table (ValuesOne input) (Some columns) True), Rows [])])"
  by (simp add: generateInsertSingle_sqlite_resolver_def run_defs Let_def split: sum.splits)

text \<open>
  C6. The Postgres and SQLite inserts are awaited with \<^verbatim>\<open>onConflictDoNothing\<close> set. Once
  the executor has answered with the rows it inserted, insert-many returns the remapping
  of exactly those rows, and insert-one returns \<^verbatim>\<open>undefined\<close> when no row came back: a
  row the executor skipped is missing from the result and nothing is thrown.
\<close>

theorem insert_conflict_is_skipped:
  "(remapFromGraphQLArrayInput_pg vh (values_array args) table = Inr input \<and> input \<noteq> []
     \<and> extractSelectedColumnsSQLFormat vh info' (generateInsertArray_pg_name vh tableName) table
          = Inr columns
     \<and> execute db (Insert table (ValuesMany input) (Some columns) True) = Inr rows \<longrightarrow>
     generateInsertArray_pg_resolver vh db tableName table args ctx info' tr
       = (bindE (remapToGraphQLArrayOutput_pg vh rows None) (\<lambda>out. Inr (Some out)),
          tr @ [(Mutation (Insert table (ValuesMany input) (Some columns) True), Rows rows)]))
   \<and> (remapFromGraphQLSingleInput_pg vh (values_single sargs) table = Inr sinput
     \<and> extractSelectedColumnsSQLFormat vh info' (generateInsertSingle_pg_name vh tableName) table
          = Inr scolumns
     \<and> execute db (Insert table (ValuesOne sinput) (Some scolumns) True) = Inr [] \<longrightarrow>
     generateInsertSingle_pg_resolver vh db tableName table sargs ctx info' tr
       = (Inr None,
          tr @ [(Mutation (Insert table (ValuesOne sinput) (Some scolumns) True), Rows [])]))
   \<and> (remapFromGraphQLArrayInput h (values_array args) table = Inr input \<and> input \<noteq> []
     \<and> parseResolveInfo h info = Inr parsedInfo
     \<and> extractSelectedColumnsFromTreeSQLFormat h
          (map_of (fieldsByTypeName parsedInfo) (capitalize h tableName @ ''Item'')) table
          = Inr columns
     \<and> execute db (Insert table (ValuesMany input) (Some columns) True) = Inr rows \<longrightarrow>
     generateInsertArray_sqlite_resolver h db tableName table args ctx info tr
       = ((case remapToGraphQLArrayOutput h rows tableName table None of
             Inl e \<Rightarrow> Inl (caught e) | Inr out \<Rightarrow> Inr (Some out)),
          tr @ [(Mutation (Insert table (ValuesMany input) (Some columns) True), Rows rows)]))
   \<and> (remapFromGraphQLSingleInput h (values_single sargs) table = Inr sinput
     \<and> parseResolveInfo h info = Inr parsedInfo
     \<and> extractSelectedColumnsFromTreeSQLFormat h
          (map_of (fieldsByTypeName parsedInfo) (capitalize h tableName @ ''Item'')) table
          = Inr scolumns
     \<and> databaseOfContext h db ctx = Inr dynamicDb
     \<and> execute dynamicDb (Insert table (ValuesOne sinput) (Some scolumns) True) = Inr [] \<longrightarrow>
     generateInsertSingle_sqlite_resolver h db tableName table sargs ctx info tr
       = (Inr None,
          tr @ [(Mutation (Insert table (ValuesOne sinput) (Some scolumns) True), Rows [])]))"
  using insertArray_pg_skips [of vh args table input info' tableName columns db rows ctx tr]
    insertSingle_pg_skips [of vh sargs table sinput info' tableName scolumns db ctx tr]
    insertArray_sqlite_skips [of h args table input info parsedInfo tableName columns db rows ctx tr]
    insertSingle_sqlite_skips [of h sargs table sinput info parsedInfo tableName scolumns db ctx dynamicDb tr]
  by simp

text \<open>
  With the sample executor, where the row with \<^verbatim>\<open>id\<close> 1 exists: inserting the rows 1 and 2
  returns the row 2 alone, and inserting the row 1 alone returns \<^verbatim>\<open>undefined\<close>.
\<close>

theorem insert_conflict_witness:
  "generateInsertArray_pg_resolver sample_vanilla_helpers sample_db ''users'' (Some users_table)
      two_users (Context None) insert_info []
     = (Inr (Some (VList [VObj [(''id'', VInt 2), (''name'', VStr ''B'')]])),
        [(Mutation (Insert (Some users_table) (ValuesMany (values_array two_users)) (Some [''id'']) True),
          Rows [[(''id'', VInt 2), (''name'', VStr ''B'')]])])
   \<and> generateInsertSingle_pg_resolver sample_vanilla_helpers sample_db ''users'' (Some users_table)
      known_user (Context None) insert_info []
     = (Inr None,
        [(Mutation (Insert (Some users_table) (ValuesOne (values_single known_user)) (Some [''id'']) True),
          Rows [])])
   \<and> generateInsertArray_sqlite_resolver sample_helpers sample_db ''users'' (Some users_table)
      two_users (Context None) sample_info []
     = (Inr (Some (VList [VObj [(''id'', VInt 2), (''name'', VStr ''B'')]])),
        [(Mutation (Insert (Some users_table) (ValuesMany (values_array two_users)) (Some [''id'']) True),
          Rows [[(''id'', VInt 2), (''name'', VStr ''B'')]])])
   \<and> generateInsertSingle_sqlite_resolver sample_helpers sample_db ''users'' (Some users_table)
      known_user (Context None) sample_info []
     = (Inr None,
        [(Mutation (Insert (Some users_table) (ValuesOne (values_single known_user)) (Some [''id'']) True),
          Rows [])])"
  using insert_conflict_is_skipped
    [where vh = sample_vanilla_helpers and h = sample_helpers and db = sample_db
       and dynamicDb = sample_db and tableName = "''users''" and table = "Some users_table"
       and args = two_users and sargs = known_user and ctx = "Context None"
       and info = sample_info and info' = insert_info and tr = "[]"
       and input = "values_array two_users" and sinput = "values_single known_user"
       and columns = "[''id'']" and scolumns = "[''id'']" and parsedInfo = sample_tree
       and rows = "[[(''id'', VInt 2), (''name'', VStr ''B'')]]"]
  by (simp add: sample_helpers_def sample_vanilla_helpers_def sample_db_def sample_tree_def
      two_users_def known_user_def insert_info_def conflicts_def bindE_def
      generateInsertArray_pg_name_def generateInsertSingle_pg_name_def
      known_columns_def users_table_def upper_char_def lower_char_def)

lemma delete_mysql_unfiltered:
  "del_arg_where args = None \<Longrightarrow> databaseOfContext h db ctx = Inr dynamicDb \<Longrightarrow>
     map fst (snd (generateDelete_mysql_resolver h db tableName table args ctx info tr))
       = map fst tr @ [Mutation (Delete table None None)]"
  by (simp add: generateDelete_mysql_resolver_def run_defs Let_def split: sum.splits)

lemma delete_sqlite_unfiltered:
  "del_arg_where args = None \<Longrightarrow> parseResolveInfo h info = Inr parsedInfo \<Longrightarrow>
   extractSelectedColumnsFromTreeSQLFormat h
       (map_of (fieldsByTypeName parsedInfo) (capitalize h tableName @ ''Item'')) table = Inr columns \<Longrightarrow>
   databaseOfContext h db ctx = Inr dynamicDb \<Longrightarrow>
     map fst (snd (generateDelete_sqlite_resolver h db tableName table args ctx info tr))
       = map fst tr @ [Mutation (Delete table None (Some columns))]"
  by (simp add: generateDelete_sqlite_resolver_def run_defs Let_def split: sum.splits)

lemma delete_pg_unfiltered:
  "del_arg_where args = None \<Longrightarrow>
   extractSelectedColumnsSQLFormat vh info (generateDelete_pg_name vh tableName) table = Inr columns \<Longrightarrow>
     map fst (snd (generateDelete_pg_resolver vh db tableName table args ctx info tr))
       = map fst tr @ [Mutation (Delete table None (Some columns))]"
  by (simp add: generateDelete_pg_resolver_def run_defs Let_def split: sum.splits)

text \<open>
  C10. In every builder, a delete without \<^verbatim>\<open>where\<close> awaits exactly one statement, the
  delete of the table with no predicate attached; nothing but the helpers that run before
  it (resolving the database, extracting the returned columns) stands in between.
\<close>

theorem delete_without_where_dispatches_unfiltered_delete:
  "(del_arg_where args = None \<and> databaseOfContext h db ctx = Inr dynamicDb \<longrightarrow>
      map fst (snd (generateDelete_mysql_resolver h db tableName table args ctx info tr))
        = map fst tr @ [Mutation (Delete table None None)])
   \<and> (del_arg_where args = None \<and> parseResolveInfo h info = Inr parsedInfo
       \<and> extractSelectedColumnsFromTreeSQLFormat h
            (map_of (fieldsByTypeName parsedInfo) (capitalize h tableName @ ''Item'')) table
            = Inr columns
       \<and> databaseOfContext h db ctx = Inr dynamicDb \<longrightarrow>
      map fst (snd (generateDelete_sqlite_resolver h db tableName table args ctx info tr))
        = map fst tr @ [Mutation (Delete table None (Some columns))])
   \<and> (del_arg_where args = None
       \<and> extractSelectedColumnsSQLFormat vh info' (generateDelete_pg_name vh tableName) table
            = Inr columns' \<longrightarrow>
      map fst (snd (generateDelete_pg_resolver vh db tableName table args ctx info' tr))
        = map fst tr @ [Mutation (Delete table None (Some columns'))])"
  using delete_mysql_unfiltered [of args h db ctx dynamicDb tableName table info tr]
    delete_sqlite_unfiltered [of args h info parsedInfo tableName table columns db ctx dynamicDb tr]
    delete_pg_unfiltered [of args vh info' tableName table columns' db ctx tr]
  by simp

theorem delete_without_where_witness:
  "map fst (snd (generateDelete_mysql_resolver sample_helpers sample_db ''users'' (Some users_table)
       \<lparr>del_arg_where = None\<rparr> (Context None) sample_info []))
     = [Mutation (Delete (Some users_table) None None)]
   \<and> map fst (snd (generateDelete_sqlite_resolver sample_helpers sample_db ''users'' (Some users_table)
       \<lparr>del_arg_where = None\<rparr> (Context None) sample_info []))
     = [Mutation (Delete (Some users_table) None (Some [''id'']))]
   \<and> map fst (snd (generateDelete_pg_resolver sample_vanilla_helpers sample_db ''users'' (Some users_table)
       \<lparr>del_arg_where = None\<rparr> (Context None)
       (Info [Field ''deleteFromUsers'' (Some [Field ''id'' None])]) []))
     = [Mutation (Delete (Some users_table) None (Some [''id'']))]"
  using delete_without_where_dispatches_unfiltered_delete
    [where h = sample_helpers and args = "\<lparr>del_arg_where = None\<rparr>"
       and table = "Some users_table" and db = sample_db and dynamicDb = sample_db
       and tableName = "''users''" and ctx = "Context None" and info = sample_info
       and tr = "[]" and parsedInfo = sample_tree and columns = "[''id'']"
       and vh = sample_vanilla_helpers and columns' = "[''id'']"
       and info' = "Info [Field ''deleteFromUsers'' (Some [Field ''id'' None])]"]
  by (simp add: sample_helpers_def sample_vanilla_helpers_def sample_tree_def
      generateDelete_pg_name_def known_columns_def users_table_def upper_char_def lower_char_def)


lemmas once_defs = awaits_once_def run_defs Let_def

lemma caught_message: "message e = Some m \<Longrightarrow> caught e = GraphQLError m"
  by (induction e rule: caught.induct) (auto split: option.splits val.splits)

lemma once_SelectArray_mysql:
  "awaits_once caught
     (generateSelectArray_mysql_resolver h db tableName tables relationMap selArgs ctx info) tr"
  by (simp add: generateSelectArray_mysql_resolver_def once_defs
      split: sum.splits option.splits if_splits list.splits)

lemma once_SelectSingle_mysql:
  "awaits_once caught
     (generateSelectSingle_mysql_resolver h db tableName tables relationMap selArgs ctx info) tr"
  by (simp add: generateSelectSingle_mysql_resolver_def once_defs
      split: sum.splits option.splits if_splits list.splits)

lemma once_InsertArray_mysql:
  "awaits_once caught
     (generateInsertArray_mysql_resolver h db tableName table arrArgs ctx info) tr"
  by (simp add: generateInsertArray_mysql_resolver_def once_defs
      split: sum.splits option.splits if_splits list.splits)

lemma once_InsertSingle_mysql:
  "awaits_once caught
     (generateInsertSingle_mysql_resolver h db tableName table oneArgs ctx info) tr"
  by (simp add: generateInsertSingle_mysql_resolver_def once_defs
      split: sum.splits option.splits if_splits list.splits)

lemma once_Update_mysql:
  "awaits_once caught
     (generateUpdate_mysql_resolver h db tableName table updArgs ctx info) tr"
  by (simp add: generateUpdate_mysql_resolver_def once_defs
      split: sum.splits option.splits if_splits list.splits)

lemma once_Delete_mysql:
  "awaits_once caught
     (generateDelete_mysql_resolver h db tableName table delArgs ctx info) tr"
  by (simp add: generateDelete_mysql_resolver_def once_defs
      split: sum.splits option.splits if_splits list.splits)

lemma once_SelectArray_sqlite:
  "awaits_once caught
     (generateSelectArray_sqlite_resolver h db tableName tables relationMap selArgs ctx info) tr"
  by (simp add: generateSelectArray_sqlite_resolver_def once_defs
      split: sum.splits option.splits if_splits list.splits)

lemma once_SelectSingle_sqlite:
  "awaits_once caught
     (generateSelectSingle_sqlite_resolver h db tableName tables relationMap selArgs ctx info) tr"
  by (simp add: generateSelectSingle_sqlite_resolver_def once_defs
      split: sum.splits option.splits if_splits list.splits)

lemma once_InsertArray_sqlite:
  "awaits_once caught
     (generateInsertArray_sqlite_resolver h db tableName table arrArgs ctx info) tr"
  by (simp add: generateInsertArray_sqlite_resolver_def once_defs
      split: sum.splits option.splits if_splits list.splits)

lemma once_InsertSingle_sqlite:
  "awaits_once caught
     (generateInsertSingle_sqlite_resolver h db tableName table oneArgs ctx info) tr"
  by (simp add: generateInsertSingle_sqlite_resolver_def once_defs
      split: sum.splits option.splits if_splits list.splits)

lemma once_Update_sqlite:
  "awaits_once caught
     (generateUpdate_sqlite_resolver h db tableName table updArgs ctx info) tr"
  by (simp add: generateUpdate_sqlite_resolver_def once_defs
      split: sum.splits option.splits if_splits list.splits)

lemma once_Delete_sqlite:
  "awaits_once caught
     (generateDelete_sqlite_resolver h db tableName table delArgs ctx info) tr"
  by (simp add: generateDelete_sqlite_resolver_def once_defs
      split: sum.splits option.splits if_splits list.splits)

lemma once_SelectArray_pg:
  "awaits_once (\<lambda>e. e)
     (generateSelectArray_pg_resolver vh db tableName table relations selArgsPg ctx info) tr"
  by (simp add: generateSelectArray_pg_resolver_def once_defs
      split: sum.splits option.splits if_splits list.splits)

lemma once_SelectSingle_pg:
  "awaits_once (\<lambda>e. e)
     (generateSelectSingle_pg_resolver vh db tableName table relations selArgsPg ctx info) tr"
  by (simp add: generateSelectSingle_pg_resolver_def once_defs
      split: sum.splits option.splits if_splits list.splits)

lemma once_InsertArray_pg:
  "awaits_once (\<lambda>e. e)
     (generateInsertArray_pg_resolver vh db tableName table arrArgs ctx info) tr"
  by (simp add: generateInsertArray_pg_resolver_def once_defs
      split: sum.splits option.splits if_splits list.splits)

lemma once_InsertSingle_pg:
  "awaits_once (\<lambda>e. e)
     (generateInsertSingle_pg_resolver vh db tableName table oneArgs ctx info) tr"
  by (simp add: generateInsertSingle_pg_resolver_def once_defs
      split: sum.splits option.splits if_splits list.splits)

lemma once_Update_pg:
  "awaits_once (\<lambda>e. e)
     (generateUpdate_pg_resolver vh db tableName table updArgs ctx info) tr"
  by (simp add: generateUpdate_pg_resolver_def once_defs
      split: sum.splits option.splits if_splits list.splits)

lemma once_Delete_pg:
  "awaits_once (\<lambda>e. e)
     (generateDelete_pg_resolver vh db tableName table delArgs ctx info) tr"
  by (simp add: generateDelete_pg_resolver_def once_defs
      split: sum.splits option.splits if_splits list.splits)

text \<open>
  C7, as the code has it. Every operation of every builder awaits the executor at most
  once, so a rejected query is never issued again, and a rejection makes the operation
  fail. The MySQL and SQLite resolvers rethrow what their handler makes of the rejection:
  a new GraphQLError with the same message when the rejection carries a string message.
  The Postgres resolvers have no handler: the rejection itself goes to the caller.
\<close>

theorem every_operation_awaits_once_and_propagates_rejection:
  "awaits_once caught
       (generateSelectArray_mysql_resolver h db tableName tables relationMap selArgs ctx info) tr
   \<and> awaits_once caught
       (generateSelectSingle_mysql_resolver h db tableName tables relationMap selArgs ctx info) tr
   \<and> awaits_once caught
       (generateInsertArray_mysql_resolver h db tableName table arrArgs ctx info) tr
   \<and> awaits_once caught
       (generateInsertSingle_mysql_resolver h db tableName table oneArgs ctx info) tr
   \<and> awaits_once caught
       (generateUpdate_mysql_resolver h db tableName table updArgs ctx info) tr
   \<and> awaits_once caught
       (generateDelete_mysql_resolver h db tableName table delArgs ctx info) tr
   \<and> awaits_once caught
       (generateSelectArray_sqlite_resolver h db tableName tables relationMap selArgs ctx info) tr
   \<and> awaits_once caught
       (generateSelectSingle_sqlite_resolver h db tableName tables relationMap selArgs ctx info) tr
   \<and> awaits_once caught
       (generateInsertArray_sqlite_resolver h db tableName table arrArgs ctx info) tr
   \<and> awaits_once caught
       (generateInsertSingle_sqlite_resolver h db tableName table oneArgs ctx info) tr
   \<and> awaits_once caught
       (generateUpdate_sqlite_resolver h db tableName table updArgs ctx info) tr
   \<and> awaits_once caught
       (generateDelete_sqlite_resolver h db tableName table delArgs ctx info) tr
   \<and> awaits_once (\<lambda>e. e)
       (generateSelectArray_pg_resolver vh db tableName table relations selArgsPg ctx info) tr
   \<and> awaits_once (\<lambda>e. e)
       (generateSelectSingle_pg_resolver vh db tableName table relations selArgsPg ctx info) tr
   \<and> awaits_once (\<lambda>e. e)
       (generateInsertArray_pg_resolver vh db tableName table arrArgs ctx info) tr
   \<and> awaits_once (\<lambda>e. e)
       (generateInsertSingle_pg_resolver vh db tableName table oneArgs ctx info) tr
   \<and> awaits_once (\<lambda>e. e)
       (generateUpdate_pg_resolver vh db tableName table updArgs ctx info) tr
   \<and> awaits_once (\<lambda>e. e)
       (generateDelete_pg_resolver vh db tableName table delArgs ctx info) tr
   \<and> (message e = Some m \<longrightarrow> caught e = GraphQLError m \<and> message (caught e) = Some m)"
  by (simp add: caught_message
      once_SelectArray_mysql once_SelectSingle_mysql once_InsertArray_mysql
      once_InsertSingle_mysql once_Update_mysql once_Delete_mysql
      once_SelectArray_sqlite once_SelectSingle_sqlite once_InsertArray_sqlite
      once_InsertSingle_sqlite once_Update_sqlite once_Delete_sqlite
      once_SelectArray_pg once_SelectSingle_pg once_InsertArray_pg
      once_InsertSingle_pg once_Update_pg once_Delete_pg)

text \<open>The MySQL update against an executor that rejects every query.\<close>

theorem rejection_propagation_witness:
  "generateUpdate_mysql_resolver sample_helpers rejecting_db ''users'' (Some users_table)
      rename_user (Context None) sample_info []
     = (Inl (GraphQLError ''connection lost''),
        [(Mutation (Update (Some users_table) [(''name'', VStr ''B'')] None None),
          Rejected (Error ''connection lost''))])"
proof -
  let ?m = "generateUpdate_mysql_resolver sample_helpers rejecting_db ''users'' (Some users_table)
      rename_user (Context None) sample_info"
  let ?q = "Mutation (Update (Some users_table) [(''name'', VStr ''B'')] None None)"
  have tr: "snd (?m []) = [(?q, Rejected (Error ''connection lost''))]"
    by (simp add: generateUpdate_mysql_resolver_def run_defs Let_def sample_helpers_def
        rejecting_db_def rename_user_def Object_keys_def)
  have "awaits_once caught ?m []"
    using every_operation_awaits_once_and_propagates_rejection by blast
  with tr have "fst (?m []) = Inl (caught (Error ''connection lost''))"
    by (simp add: awaits_once_def split: prod.splits)
  with tr show ?thesis by (simp add: prod_eq_iff)
qed

text \<open>
  C7 as stated fails on the Postgres builder: what reaches the caller is the executor's
  own rejection, here an \<^verbatim>\<open>Error\<close>, and not a GraphQLError made from its message.
\<close>

theorem postgres_rejection_is_not_wrapped:
  "generateDelete_pg_resolver sample_vanilla_helpers rejecting_db ''users'' (Some users_table)
      \<lparr>del_arg_where = None\<rparr> (Context None) delete_info []
     = (Inl (Error ''connection lost''),
        [(Mutation (Delete (Some users_table) None (Some [''id''])),
          Rejected (Error ''connection lost''))])
   \<and> Error ''connection lost'' \<noteq> GraphQLError ''connection lost''"
  by (simp add: generateDelete_pg_resolver_def run_defs Let_def sample_vanilla_helpers_def
      rejecting_db_def delete_info_def generateDelete_pg_name_def known_columns_def
      users_table_def upper_char_def lower_char_def)













section \<open>Properties of \<^verbatim>\<open>generateSchemaData\<close>\<close>

lemma bindE_Inr_iff: "bindE r f = Inr y \<longleftrightarrow> (\<exists>v. r = Inr v \<and> f v = Inr y)"
  by (cases r) (simp_all add: bindE_def)












lemma map_fst_obj_set:
  "map fst (obj_set m k v) = (if k \<in> set (map fst m) then map fst m else map fst m @ [k])"
  by (induction m) (auto simp add: rev_image_eqI)


























lemma map_of_obj_set: "map_of (obj_set m k v) = (map_of m)(k \<mapsto> v)"
  by (induction m) (auto simp add: fun_eq_iff)

lemma distinct_obj_set: "distinct (map fst m) \<Longrightarrow> distinct (map fst (obj_set m k v))"
  by (simp add: map_fst_obj_set)

lemma map_of_assign: "map_of (assign m g t) = (map_of m)(cr_name g \<mapsto> field_of g t)"
  by (simp add: assign_def map_of_obj_set)

lemma distinct_assign: "distinct (map fst m) \<Longrightarrow> distinct (map fst (assign m g t))"
  by (simp add: assign_def distinct_obj_set)

lemmas created_defs =
  generateSelectArray_mysql_def generateSelectSingle_mysql_def generateInsertArray_mysql_def
  generateInsertSingle_mysql_def generateUpdate_mysql_def generateDelete_mysql_def
  generateSelectArray_sqlite_def generateSelectSingle_sqlite_def generateInsertArray_sqlite_def
  generateInsertSingle_sqlite_def generateUpdate_sqlite_def generateDelete_sqlite_def
  generateInsertArray_pg_def generateInsertSingle_pg_def generateUpdate_pg_def generateDelete_pg_def

lemma step_mysql_queries:
  "map_of (queries (schemaData_step_mysql h db schema tables nr acc (tableName, tt)))
     = (map_of (queries acc))
         (generateSelectArray_mysql_name h tableName \<mapsto>
            field_of (generateSelectArray_mysql h db tableName tables nr
                        (tableOrder tt) (tableFilters tt)) (selectArrOutput tt),
          generateSelectSingle_mysql_name h tableName \<mapsto>
            field_of (generateSelectSingle_mysql h db tableName tables nr
                        (tableOrder tt) (tableFilters tt)) (selectSingleOutput tt))"
  by (simp add: schemaData_step_mysql_def Let_def map_of_assign)
    (simp add: generateSelectArray_mysql_def generateSelectSingle_mysql_def)

lemma step_mysql_mutations:
  "map_of (mutations (schemaData_step_mysql h db schema tables nr acc (tableName, tt)))
     = (map_of (mutations acc))
         (generateInsertArray_mysql_name h tableName \<mapsto>
            field_of (generateInsertArray_mysql h db tableName (as_table (map_of schema tableName))
                        (insertInput tt)) mutationReturnType,
          generateInsertSingle_mysql_name h tableName \<mapsto>
            field_of (generateInsertSingle_mysql h db tableName (as_table (map_of schema tableName))
                        (insertInput tt)) mutationReturnType,
          generateUpdate_mysql_name h tableName \<mapsto>
            field_of (generateUpdate_mysql h db tableName (as_table (map_of schema tableName))
                        (updateInput tt) (tableFilters tt)) mutationReturnType,
          generateDelete_mysql_name h tableName \<mapsto>
            field_of (generateDelete_mysql h db tableName (as_table (map_of schema tableName))
                        (tableFilters tt)) mutationReturnType)"
  by (simp add: schemaData_step_mysql_def Let_def map_of_assign)
    (simp add: created_defs)

lemma step_mysql_distinct:
  "distinct (map fst (queries acc)) \<and> distinct (map fst (mutations acc)) \<Longrightarrow>
   distinct (map fst (queries (schemaData_step_mysql h db schema tables nr acc x)))
   \<and> distinct (map fst (mutations (schemaData_step_mysql h db schema tables nr acc x)))"
  by (cases x) (simp add: schemaData_step_mysql_def Let_def distinct_assign)

lemma foldl_distinct:
  assumes step: "\<And>acc x. P acc \<Longrightarrow> P (f acc x)"
  shows "P acc \<Longrightarrow> P (foldl f acc xs)"
  by (induction xs arbitrary: acc) (simp_all add: step)

lemma generateSchemaData_mysql_distinct:
  assumes "generateSchemaData_mysql h db schema depth = Inr g"
  shows "distinct (map fst (queries g)) \<and> distinct (map fst (mutations g))"
proof -
  from assms obtain tables nr xs where
    g: "g = foldl (schemaData_step_mysql h db schema tables nr)
                \<lparr>queries = [], mutations = [], inputs = [],
                 types = [(''MutationReturn'', mutationReturnType)]\<rparr> xs"
    by (auto simp add: generateSchemaData_mysql_def Let_def bindE_Inr_iff split: if_splits)
  show ?thesis unfolding g
    by (rule foldl_distinct [where P = "\<lambda>a. distinct (map fst (queries a)) \<and> distinct (map fst (mutations a))"])
      (simp_all add: step_mysql_distinct)
qed

lemma step_sqlite_queries:
  "map_of (queries (schemaData_step_sqlite h db schema tables nr acc (tableName, tt)))
     = (map_of (queries acc))
         (generateSelectArray_sqlite_name h tableName \<mapsto>
            field_of (generateSelectArray_sqlite h db tableName tables nr
                        (tableOrder tt) (tableFilters tt)) (selectArrOutput tt),
          generateSelectSingle_sqlite_name h tableName \<mapsto>
            field_of (generateSelectSingle_sqlite h db tableName tables nr
                        (tableOrder tt) (tableFilters tt)) (selectSingleOutput tt))"
  by (simp add: schemaData_step_sqlite_def Let_def map_of_assign)
    (simp add: generateSelectArray_sqlite_def generateSelectSingle_sqlite_def)

lemma step_sqlite_mutations:
  "map_of (mutations (schemaData_step_sqlite h db schema tables nr acc (tableName, tt)))
     = (map_of (mutations acc))
         (generateInsertArray_sqlite_name h tableName \<mapsto>
            field_of (generateInsertArray_sqlite h db tableName (as_table (map_of schema tableName))
                        (insertInput tt)) (arrTableItemOutput tt),
          generateInsertSingle_sqlite_name h tableName \<mapsto>
            field_of (generateInsertSingle_sqlite h db tableName (as_table (map_of schema tableName))
                        (insertInput tt)) (singleTableItemOutput tt),
          generateUpdate_sqlite_name h tableName \<mapsto>
            field_of (generateUpdate_sqlite h db tableName (as_table (map_of schema tableName))
                        (updateInput tt) (tableFilters tt)) (arrTableItemOutput tt),
          generateDelete_sqlite_name h tableName \<mapsto>
            field_of (generateDelete_sqlite h db tableName (as_table (map_of schema tableName))
                        (tableFilters tt)) (arrTableItemOutput tt))"
  by (simp add: schemaData_step_sqlite_def Let_def map_of_assign)
    (simp add: created_defs)

lemma step_sqlite_distinct:
  "distinct (map fst (queries acc)) \<and> distinct (map fst (mutations acc)) \<Longrightarrow>
   distinct (map fst (queries (schemaData_step_sqlite h db schema tables nr acc x)))
   \<and> distinct (map fst (mutations (schemaData_step_sqlite h db schema tables nr acc x)))"
  by (cases x) (simp add: schemaData_step_sqlite_def Let_def distinct_assign)

lemma generateSchemaData_sqlite_distinct:
  assumes "generateSchemaData_sqlite h db schema depth = Inr g"
  shows "distinct (map fst (queries g)) \<and> distinct (map fst (mutations g))"
proof -
  from assms obtain tables nr xs where
    g: "g = foldl (schemaData_step_sqlite h db schema tables nr)
                \<lparr>queries = [], mutations = [], inputs = [], types = []\<rparr> xs"
    by (auto simp add: generateSchemaData_sqlite_def Let_def bindE_Inr_iff split: if_splits)
  show ?thesis unfolding g
    by (rule foldl_distinct [where P = "\<lambda>a. distinct (map fst (queries a)) \<and> distinct (map fst (mutations a))"])
      (simp_all add: step_sqlite_distinct)
qed

lemma step_pg_maps:
  assumes "tableName \<in> set (db_query db)"
  shows "\<exists>acc'. schemaData_step_pg vh db schema rels acc (tableName, tt) = Inr acc'
     \<and> map_of (queries acc')
        = (map_of (queries acc))
            (generateSelectArray_pg_name vh tableName \<mapsto>
               field_of (projr (generateSelectArray_pg vh db tableName
                             (as_table (map_of schema tableName)) (map_of rels tableName)
                             (tableOrder tt) (tableFilters tt)
                             (relationOrder tt) (relationFilters tt)))
                 (selectArrOutput tt),
             generateSelectSingle_pg_name vh tableName \<mapsto>
               field_of (projr (generateSelectSingle_pg vh db tableName
                             (as_table (map_of schema tableName)) (map_of rels tableName)
                             (tableOrder tt) (tableFilters tt)
                             (relationOrder tt) (relationFilters tt)))
                 (selectSingleOutput tt))
     \<and> map_of (mutations acc')
        = (map_of (mutations acc))
            (generateInsertArray_pg_name vh tableName \<mapsto>
               field_of (generateInsertArray_pg vh db tableName (as_table (map_of schema tableName))
                           (insertInput tt)) (arrTableItemOutput tt),
             generateInsertSingle_pg_name vh tableName \<mapsto>
               field_of (generateInsertSingle_pg vh db tableName (as_table (map_of schema tableName))
                           (insertInput tt)) (singleTableItemOutput tt),
             generateUpdate_pg_name vh tableName \<mapsto>
               field_of (generateUpdate_pg vh db tableName (as_table (map_of schema tableName))
                           (updateInput tt) (tableFilters tt)) (arrTableItemOutput tt),
             generateDelete_pg_name vh tableName \<mapsto>
               field_of (generateDelete_pg vh db tableName (as_table (map_of schema tableName))
                           (tableFilters tt)) (arrTableItemOutput tt))"
  using assms
  by (simp add: schemaData_step_pg_def Let_def bindE_def map_of_assign
      generateSelectArray_pg_def generateSelectSingle_pg_def created_defs)

lemma step_pg_distinct:
  "distinct (map fst (queries acc)) \<and> distinct (map fst (mutations acc)) \<Longrightarrow>
   schemaData_step_pg vh db schema rels acc x = Inr acc' \<Longrightarrow>
   distinct (map fst (queries acc')) \<and> distinct (map fst (mutations acc'))"
  by (cases x)
    (auto simp add: schemaData_step_pg_def Let_def bindE_Inr_iff distinct_assign)

lemma foldE_invariant:
  assumes step: "\<And>acc x acc'. P acc \<Longrightarrow> f acc x = Inr acc' \<Longrightarrow> P acc'"
  shows "P acc \<Longrightarrow> foldE f acc xs = Inr r \<Longrightarrow> P r"
proof (induction xs arbitrary: acc)
  case Nil
  then show ?case by simp
next
  case (Cons x xs)
  from Cons.prems(2) obtain acc' where
    a: "f acc x = Inr acc'" and rest: "foldE f acc' xs = Inr r"
    by (auto simp add: bindE_Inr_iff)
  from step [OF Cons.prems(1) a] have "P acc'" .
  from Cons.IH [OF this rest] show ?case .
qed

lemma generateSchemaData_pg_distinct:
  assumes "generateSchemaData_pg vh db schema = Inr g"
  shows "distinct (map fst (queries g)) \<and> distinct (map fst (mutations g))"
proof -
  from assms obtain rels xs where
    g: "foldE (schemaData_step_pg vh db schema rels)
           \<lparr>queries = [], mutations = [], inputs = [], types = []\<rparr> xs = Inr g"
    by (auto simp add: generateSchemaData_pg_def Let_def bindE_Inr_iff split: if_splits)
  show ?thesis
    by (rule foldE_invariant
          [where P = "\<lambda>a. distinct (map fst (queries a)) \<and> distinct (map fst (mutations a))",
           OF _ _ g])
      (erule step_pg_distinct, assumption, simp)
qed

lemma colliding_generation:
  "\<not> isl (generateSchemaData_mysql sample_helpers colliding_db colliding_schema None)"
  "\<not> isl (generateSchemaData_sqlite sample_helpers colliding_db colliding_schema None)"
  "\<not> isl (generateSchemaData_pg sample_vanilla_helpers colliding_db colliding_schema)"
  by (simp_all add: generateSchemaData_mysql_def generateSchemaData_sqlite_def
      generateSchemaData_pg_def colliding_schema_def Let_def fromEntries_def Object_keys_def
      rawRelations_def namedRelations_def relations_pg_def bindE_def
      sample_helpers_def sample_vanilla_helpers_def schemaData_step_pg_def
      generateSelectArray_pg_def generateSelectSingle_pg_def colliding_db_def sample_db_def)

text \<open>
  C4, as the code has it. Generated names are not checked. Each round of the loop stores
  the two queries and the four mutations of a table under their names by plain
  assignment, over whatever the map held under those names (in the Postgres builder once
  the table is found in \<^verbatim>\<open>db.query\<close>); so the maps of a finished generation have one entry
  per name, and a name generated twice keeps the operation assigned last.
\<close>

theorem generated_names_are_assigned_unchecked:
  "map_of (queries (schemaData_step_mysql h db schema tables nr acc (tableName, tt)))
     = (map_of (queries acc))
         (generateSelectArray_mysql_name h tableName \<mapsto>
            field_of (generateSelectArray_mysql h db tableName tables nr
                        (tableOrder tt) (tableFilters tt)) (selectArrOutput tt),
          generateSelectSingle_mysql_name h tableName \<mapsto>
            field_of (generateSelectSingle_mysql h db tableName tables nr
                        (tableOrder tt) (tableFilters tt)) (selectSingleOutput tt))
   \<and> map_of (mutations (schemaData_step_mysql h db schema tables nr acc (tableName, tt)))
     = (map_of (mutations acc))
         (generateInsertArray_mysql_name h tableName \<mapsto>
            field_of (generateInsertArray_mysql h db tableName (as_table (map_of schema tableName))
                        (insertInput tt)) mutationReturnType,
          generateInsertSingle_mysql_name h tableName \<mapsto>
            field_of (generateInsertSingle_mysql h db tableName (as_table (map_of schema tableName))
                        (insertInput tt)) mutationReturnType,
          generateUpdate_mysql_name h tableName \<mapsto>
            field_of (generateUpdate_mysql h db tableName (as_table (map_of schema tableName))
                        (updateInput tt) (tableFilters tt)) mutationReturnType,
          generateDelete_mysql_name h tableName \<mapsto>
            field_of (generateDelete_mysql h db tableName (as_table (map_of schema tableName))
                        (tableFilters tt)) mutationReturnType)
   \<and> map_of (queries (schemaData_step_sqlite h db schema tables nr acc (tableName, tt)))
     = (map_of (queries acc))
         (generateSelectArray_sqlite_name h tableName \<mapsto>
            field_of (generateSelectArray_sqlite h db tableName tables nr
                        (tableOrder tt) (tableFilters tt)) (selectArrOutput tt),
          generateSelectSingle_sqlite_name h tableName \<mapsto>
            field_of (generateSelectSingle_sqlite h db tableName tables nr
                        (tableOrder tt) (tableFilters tt)) (selectSingleOutput tt))
   \<and> map_of (mutations (schemaData_step_sqlite h db schema tables nr acc (tableName, tt)))
     = (map_of (mutations acc))
         (generateInsertArray_sqlite_name h tableName \<mapsto>
            field_of (generateInsertArray_sqlite h db tableName (as_table (map_of schema tableName))
                        (insertInput tt)) (arrTableItemOutput tt),
          generateInsertSingle_sqlite_name h tableName \<mapsto>
            field_of (generateInsertSingle_sqlite h db tableName (as_table (map_of schema tableName))
                        (insertInput tt)) (singleTableItemOutput tt),
          generateUpdate_sqlite_name h tableName \<mapsto>
            field_of (generateUpdate_sqlite h db tableName (as_table (map_of schema tableName))
                        (updateInput tt) (tableFilters tt)) (arrTableItemOutput tt),
          generateDelete_sqlite_name h tableName \<mapsto>
            field_of (generateDelete_sqlite h db tableName (as_table (map_of schema tableName))
                        (tableFilters tt)) (arrTableItemOutput tt))
   \<and> (pname \<in> set (db_query pdb) \<longrightarrow>
      (\<exists>acc'. schemaData_step_pg vh pdb pschema rels pacc (pname, ptt) = Inr acc'
     \<and> map_of (queries acc')
        = (map_of (queries pacc))
            (generateSelectArray_pg_name vh pname \<mapsto>
               field_of (projr (generateSelectArray_pg vh pdb pname
                             (as_table (map_of pschema pname)) (map_of rels pname)
                             (tableOrder ptt) (tableFilters ptt)
                             (relationOrder ptt) (relationFilters ptt)))
                 (selectArrOutput ptt),
             generateSelectSingle_pg_name vh pname \<mapsto>
               field_of (projr (generateSelectSingle_pg vh pdb pname
                             (as_table (map_of pschema pname)) (map_of rels pname)
                             (tableOrder ptt) (tableFilters ptt)
                             (relationOrder ptt) (relationFilters ptt)))
                 (selectSingleOutput ptt))
     \<and> map_of (mutations acc')
        = (map_of (mutations pacc))
            (generateInsertArray_pg_name vh pname \<mapsto>
               field_of (generateInsertArray_pg vh pdb pname (as_table (map_of pschema pname))
                           (insertInput ptt)) (arrTableItemOutput ptt),
             generateInsertSingle_pg_name vh pname \<mapsto>
               field_of (generateInsertSingle_pg vh pdb pname (as_table (map_of pschema pname))
                           (insertInput ptt)) (singleTableItemOutput ptt),
             generateUpdate_pg_name vh pname \<mapsto>
               field_of (generateUpdate_pg vh pdb pname (as_table (map_of pschema pname))
                           (updateInput ptt) (tableFilters ptt)) (arrTableItemOutput ptt),
             generateDelete_pg_name vh pname \<mapsto>
               field_of (generateDelete_pg vh pdb pname (as_table (map_of pschema pname))
                           (tableFilters ptt)) (arrTableItemOutput ptt))))
   \<and> (generateSchemaData_mysql h db gschema depth = Inr g \<longrightarrow>
        distinct (map fst (queries g)) \<and> distinct (map fst (mutations g)))
   \<and> (generateSchemaData_sqlite h db gschema depth = Inr gs \<longrightarrow>
        distinct (map fst (queries gs)) \<and> distinct (map fst (mutations gs)))
   \<and> (generateSchemaData_pg vh gdb gschema = Inr gp \<longrightarrow>
        distinct (map fst (queries gp)) \<and> distinct (map fst (mutations gp)))"
  using step_mysql_queries [of h db schema tables nr acc tableName tt]
    step_mysql_mutations [of h db schema tables nr acc tableName tt]
    step_sqlite_queries [of h db schema tables nr acc tableName tt]
    step_sqlite_mutations [of h db schema tables nr acc tableName tt]
    step_pg_maps [where tableName = pname and db = pdb and vh = vh and schema = pschema
      and rels = rels and acc = pacc and tt = ptt]
    generateSchemaData_mysql_distinct [of h db gschema depth g]
    generateSchemaData_sqlite_distinct [of h db gschema depth gs]
    generateSchemaData_pg_distinct [of vh gdb gschema gp]
  by (intro conjI impI) (assumption | simp)+

text \<open>The schema of the tables \<^verbatim>\<open>a\<close> and \<^verbatim>\<open>aSingle\<close>, whose names collide.\<close>

theorem generated_names_witness:
  "distinct (map fst (queries (projr
      (generateSchemaData_mysql sample_helpers colliding_db colliding_schema None))))
   \<and> distinct (map fst (queries (projr
      (generateSchemaData_sqlite sample_helpers colliding_db colliding_schema None))))
   \<and> distinct (map fst (queries (projr
      (generateSchemaData_pg sample_vanilla_helpers colliding_db colliding_schema))))
   \<and> \<not> isl (schemaData_step_pg sample_vanilla_helpers colliding_db colliding_schema []
              no_entities (''a'', a_types_pg))"
proof -
  note main = generated_names_are_assigned_unchecked
  obtain g where g: "generateSchemaData_mysql sample_helpers colliding_db colliding_schema None = Inr g"
    using colliding_generation(1)
    by (cases "generateSchemaData_mysql sample_helpers colliding_db colliding_schema None") auto
  obtain gs where gs: "generateSchemaData_sqlite sample_helpers colliding_db colliding_schema None = Inr gs"
    using colliding_generation(2)
    by (cases "generateSchemaData_sqlite sample_helpers colliding_db colliding_schema None") auto
  obtain gp where gp: "generateSchemaData_pg sample_vanilla_helpers colliding_db colliding_schema = Inr gp"
    using colliding_generation(3)
    by (cases "generateSchemaData_pg sample_vanilla_helpers colliding_db colliding_schema") auto
  have a: "''a'' \<in> set (db_query colliding_db)"
    by (simp add: colliding_db_def)
  have "distinct (map fst (queries g))"
    by (rule main [THEN conjunct2, THEN conjunct2, THEN conjunct2, THEN conjunct2, THEN conjunct2,
          THEN conjunct1, rule_format, OF g, THEN conjunct1])
  moreover have "distinct (map fst (queries gs))"
    by (rule main [THEN conjunct2, THEN conjunct2, THEN conjunct2, THEN conjunct2, THEN conjunct2,
          THEN conjunct2, THEN conjunct1, rule_format, OF gs, THEN conjunct1])
  moreover have "distinct (map fst (queries gp))"
    by (rule main [THEN conjunct2, THEN conjunct2, THEN conjunct2, THEN conjunct2, THEN conjunct2,
          THEN conjunct2, THEN conjunct2, rule_format, OF gp, THEN conjunct1])
  moreover have "\<exists>acc'. schemaData_step_pg sample_vanilla_helpers colliding_db colliding_schema []
              no_entities (''a'', a_types_pg) = Inr acc'"
    using main [where pname = "''a''" and pdb = colliding_db and vh = sample_vanilla_helpers
          and pschema = colliding_schema and rels = "[]" and pacc = no_entities
          and ptt = a_types_pg,
          THEN conjunct2, THEN conjunct2, THEN conjunct2, THEN conjunct2, THEN conjunct1,
          rule_format, OF a]
    by blast
  ultimately show ?thesis using g gs gp by auto
qed

text \<open>
  C4 as stated fails: for the tables \<^verbatim>\<open>a\<close> and \<^verbatim>\<open>aSingle\<close> the MySQL generation succeeds
  with three queries instead of four, and \<^verbatim>\<open>aSingle\<close> is the select-many of the table
  \<^verbatim>\<open>aSingle\<close>: the select-one of the table \<^verbatim>\<open>a\<close> has been overwritten.
\<close>

theorem colliding_names_overwrite:
  "\<not> isl (generateSchemaData_mysql sample_helpers colliding_db colliding_schema None)
   \<and> map fst (queries (projr (generateSchemaData_mysql sample_helpers colliding_db colliding_schema None)))
       = [''a'', ''aSingle'', ''aSingleSingle'']
   \<and> map_option fc_type
        (map_of (queries (projr (generateSchemaData_mysql sample_helpers colliding_db colliding_schema None)))
           ''aSingle'')
       = Some (selectArrOutput (sample_table_types ''aSingle''))"
  by (simp add: generateSchemaData_mysql_def colliding_schema_def Let_def
      rawRelations_def namedRelations_def bindE_def sample_helpers_def fromEntries_def
      schemaData_step_mysql_def assign_def field_of_def created_defs
      generateSelectArray_mysql_name_def generateSelectSingle_mysql_name_def
      lower_char_def)

end
